theory Spec2Isabelle
  imports Main
begin

section \<open>Calendar dates (the part of Python's \<open>datetime.date\<close> the scheduler uses)\<close>

text \<open>
  A \<open>datetime.date\<close> is a year, a month and a day. The constructor raises
  \<open>ValueError\<close> outside \<open>MINYEAR = 1 .. MAXYEAR = 9999\<close>, outside months 1..12 and
  outside the days of the month; dates compare as the tuples (year, month, day); the
  difference of two dates counts days between their proleptic Gregorian ordinals.
\<close>

record date =
  year :: int
  month :: int
  day :: int

datatype error = ValueError

definition is_leap :: "int \<Rightarrow> bool" where
  "is_leap y = (y mod 4 = 0 \<and> (y mod 100 \<noteq> 0 \<or> y mod 400 = 0))"

definition days_in_month :: "int \<Rightarrow> int \<Rightarrow> int" where
  "days_in_month y m =
     (if m = 2 then (if is_leap y then 29 else 28)
      else if m = 4 \<or> m = 6 \<or> m = 9 \<or> m = 11 then 30 else 31)"

definition mk_date :: "int \<Rightarrow> int \<Rightarrow> int \<Rightarrow> error + date" where
  "mk_date y m d =
     (if 1 \<le> y \<and> y \<le> 9999 \<and> 1 \<le> m \<and> m \<le> 12 \<and> 1 \<le> d \<and> d \<le> days_in_month y m
      then Inr \<lparr>year = y, month = m, day = d\<rparr>
      else Inl ValueError)"

definition valid_date :: "date \<Rightarrow> bool" where
  "valid_date d = (mk_date (year d) (month d) (day d) = Inr d)"

definition date_less :: "date \<Rightarrow> date \<Rightarrow> bool" where
  "date_less a b =
     (year a < year b \<or>
      (year a = year b \<and> (month a < month b \<or> (month a = month b \<and> day a < day b))))"

definition date_le :: "date \<Rightarrow> date \<Rightarrow> bool" where
  "date_le a b = (date_less a b \<or> a = b)"

definition days_before_year :: "int \<Rightarrow> int" where
  "days_before_year y = (y - 1) * 365 + (y - 1) div 4 - (y - 1) div 100 + (y - 1) div 400"

definition days_before_month :: "int \<Rightarrow> int \<Rightarrow> int" where
  \<comment> \<open>the table \<open>_DAYS_BEFORE_MONTH\<close>, plus the leap day after February\<close>
  "days_before_month y m =
     (if 1 \<le> m \<and> m \<le> 12 then
        [0, 31, 59, 90, 120, 151, 181, 212, 243, 273, 304, 334] ! nat (m - 1) +
        (if m > 2 \<and> is_leap y then 1 else 0)
      else 0)"

definition toordinal :: "date \<Rightarrow> int" where
  "toordinal d = days_before_year (year d) + days_before_month (year d) (month d) + day d"

definition days_between :: "date \<Rightarrow> date \<Rightarrow> int" where
  \<comment> \<open>\<open>(a - b).days\<close>\<close>
  "days_between a b = toordinal a - toordinal b"

definition some_date :: "int \<Rightarrow> int \<Rightarrow> int \<Rightarrow> error + date option" where
  \<comment> \<open>\<open>date(y, m, d)\<close> as the value a function returns: the exception propagates\<close>
  "some_date y m d = (case mk_date y m d of Inl e \<Rightarrow> Inl e | Inr x \<Rightarrow> Inr (Some x))"

section \<open>Data model (\<open>data_models.py\<close>)\<close>

text \<open>
  The dataclasses, with their optional fields as options. A status is one of the three
  strings of the \<open>Literal\<close> type the dataclass declares. The scheduler tests ids and
  strings for truth: an id counts as persisted when it is neither \<open>None\<close> nor 0, a code
  or nationality as present when it is neither \<open>None\<close> nor empty.
\<close>

datatype status = Copyrighted | Public_Domain | Unknown

datatype base_date_type = publication | creation | author_death | fixed_year

record Jurisdiction =
  j_name :: string
  j_id :: "int option"
  j_code :: "string option"
  term_years_after_death :: int
  has_special_rules :: bool

record Author =
  a_name :: string
  a_id :: "int option"
  birth_date :: "date option"
  death_date :: "date option"
  nationality :: "string option"
  bio :: "string option"

record CopyrightRule =
  rule_jurisdiction :: Jurisdiction
  rule_type :: string
  term_years :: int
  rule_base_date_type :: base_date_type
  description :: string

text \<open>
  The fields of \<open>Work\<close> that the scheduler reads or writes, and the dates beside them;
  the remaining descriptive fields live in the record's extension.
\<close>

record Work =
  title :: string
  w_id :: "int option"
  authors :: "Author list"
  creation_date :: "date option"
  publication_date :: "date option"
  first_publication_date :: "date option"
  copyright_expiry_date :: "date option"
  primary_jurisdiction :: "Jurisdiction option"
  status :: status
  status_by_jurisdiction :: "string \<rightharpoonup> status"
  is_collaborative :: bool

section \<open>Configuration and the current date (\<open>config.py\<close>, \<open>date_provider.py\<close>)\<close>

definition DEFAULT_TERM_YEARS :: int where
  "DEFAULT_TERM_YEARS = 70"

definition DEFAULT_DATE :: date where
  "DEFAULT_DATE = \<lparr>year = 2025, month = 4, day = 30\<rparr>"

text \<open>
  The provider's state: the module-level override and the date parsed from the
  environment variable \<open>CURRENT_DATE\<close> (\<open>None\<close> when unset or unparsable).
\<close>

record date_provider =
  current_date_override :: "date option"
  env_current_date :: "date option"

definition get_current_date :: "date_provider \<Rightarrow> date" where
  "get_current_date p =
     (case current_date_override p of
        Some d \<Rightarrow> d
      | None \<Rightarrow> (case env_current_date p of Some d \<Rightarrow> d | None \<Rightarrow> DEFAULT_DATE))"

section \<open>Truthiness of optional values\<close>

definition truthy_str :: "string option \<Rightarrow> bool" where
  "truthy_str x = (case x of None \<Rightarrow> False | Some s \<Rightarrow> s \<noteq> [])"

definition endswith :: "string \<Rightarrow> string \<Rightarrow> bool" where
  "endswith s suf = (length suf \<le> length s \<and> drop (length s - length suf) s = suf)"

section \<open>The standard life-plus-term calculation (\<open>scheduler.py\<close>)\<close>

text \<open>
  The loop over the authors that both calculators run: it keeps the latest death date
  seen so far and whether every author had one.
\<close>

fun scan_death_dates :: "Author list \<Rightarrow> date option \<times> bool \<Rightarrow> date option \<times> bool" where
  "scan_death_dates [] acc = acc"
| "scan_death_dates (a # as) (latest, all_have) =
     scan_death_dates as
       (case death_date a of
          Some d \<Rightarrow>
            (case latest of
               None \<Rightarrow> (Some d, all_have)
             | Some l \<Rightarrow> (if date_less l d then (Some d, all_have) else (Some l, all_have)))
        | None \<Rightarrow> (latest, False))"

definition fallback_term_years :: "Jurisdiction option \<Rightarrow> int \<Rightarrow> int" where
  \<comment> \<open>lines 74-83: the term of the creation-date path, from the term computed so far\<close>
  "fallback_term_years jurisdiction term =
     (case jurisdiction of
        Some j \<Rightarrow>
          (if j_code j = Some ''US'' then 95
           else if j_code j = Some ''EU'' then 70
           else term)
      | None \<Rightarrow> 95)"

definition creation_fallback :: "'a Work_scheme \<Rightarrow> Jurisdiction option \<Rightarrow> int \<Rightarrow> error + date option" where
  \<comment> \<open>lines 70-94\<close>
  "creation_fallback work jurisdiction term =
     (case creation_date work of
        Some cd \<Rightarrow> some_date (year cd + fallback_term_years jurisdiction term) 12 31
      | None \<Rightarrow> Inr None)"

definition calculate_standard_expiry :: "'a Work_scheme \<Rightarrow> Jurisdiction option \<Rightarrow> error + date option" where
  "calculate_standard_expiry work jurisdiction =
     (let term = (case jurisdiction of
                    Some j \<Rightarrow> term_years_after_death j
                  | None \<Rightarrow> DEFAULT_TERM_YEARS)
      in if authors work \<noteq> [] then
           (case scan_death_dates (authors work) (None, True) of
              (Some latest, all_have) \<Rightarrow> some_date (year latest + term) 12 31
            | (None, all_have) \<Rightarrow>
                (if \<not> all_have \<and> creation_date work = None then Inr None
                 else creation_fallback work jurisdiction term))
         else creation_fallback work jurisdiction term)"

section \<open>The storage collaborator (\<open>database.py\<close>)\<close>

text \<open>
  The tables the scheduler reaches: the jurisdictions (as the rows come back from the
  query, which orders them by name), the copyright rules with the id of their
  jurisdiction, and the per-jurisdiction status of each work, keyed by
  (work id, jurisdiction id). A failing connection is not modelled.
\<close>

record rule_row =
  row_jurisdiction_id :: int
  row_rule_type :: string
  row_term_years :: int
  row_base_date_type :: base_date_type
  row_description :: string

record database =
  jurisdictions_table :: "Jurisdiction list"
  copyright_rules_table :: "rule_row list"
  work_jurisdiction_status :: "(int \<times> int) \<rightharpoonup> (status \<times> date option)"

definition get_all_jurisdictions :: "database \<Rightarrow> Jurisdiction list" where
  "get_all_jurisdictions db = jurisdictions_table db"

definition get_copyright_rules_for_jurisdiction :: "database \<Rightarrow> int \<Rightarrow> CopyrightRule list" where
  "get_copyright_rules_for_jurisdiction db jurisdiction_id =
     (case find (\<lambda>j. j_id j = Some jurisdiction_id) (jurisdictions_table db) of
        None \<Rightarrow> []
      | Some j \<Rightarrow>
          map (\<lambda>row. \<lparr>rule_jurisdiction = j, rule_type = row_rule_type row,
                       term_years = row_term_years row,
                       rule_base_date_type = row_base_date_type row,
                       description = row_description row\<rparr>)
              (filter (\<lambda>row. row_jurisdiction_id row = jurisdiction_id) (copyright_rules_table db)))"

definition set_work_copyright_status_by_jurisdiction ::
    "database \<Rightarrow> int \<Rightarrow> int \<Rightarrow> status \<Rightarrow> date option \<Rightarrow> database" where
  "set_work_copyright_status_by_jurisdiction db work_id jurisdiction_id st expiry =
     db\<lparr>work_jurisdiction_status :=
          (work_jurisdiction_status db)((work_id, jurisdiction_id) \<mapsto> (st, expiry))\<rparr>"

section \<open>Special rules (\<open>apply_special_rules\<close>)\<close>

text \<open>
  Each branch of \<open>apply_special_rules\<close> either returns a date (or raises while building
  it) or falls through to the next statement; \<open>Inr None\<close> stands for falling through.
\<close>

definition or_else :: "error + date option \<Rightarrow> error + date option \<Rightarrow> error + date option" where
  "or_else first_branch next_branch =
     (case first_branch of Inr None \<Rightarrow> next_branch | Inr (Some d) \<Rightarrow> Inr (Some d) | Inl e \<Rightarrow> Inl e)"

definition first_rule :: "string \<Rightarrow> CopyrightRule list \<Rightarrow> CopyrightRule option" where
  \<comment> \<open>\<open>for rule in rules: if rule.rule_type == t: return ...\<close> stops at the first match\<close>
  "first_rule t rules = find (\<lambda>r. rule_type r = t) rules"

definition us_published_before_1923 :: "'a Work_scheme \<Rightarrow> CopyrightRule list \<Rightarrow> error + date option" where
  "us_published_before_1923 work rules =
     (case creation_date work of
        Some cd \<Rightarrow>
          (if year cd < 1923 then
             (case first_rule ''published_before_1923'' rules of
                Some r \<Rightarrow> some_date 1923 1 1
              | None \<Rightarrow> Inr None)
           else Inr None)
      | None \<Rightarrow> Inr None)"

definition us_published_1923_to_1977 :: "'a Work_scheme \<Rightarrow> CopyrightRule list \<Rightarrow> error + date option" where
  "us_published_1923_to_1977 work rules =
     (case creation_date work of
        Some cd \<Rightarrow>
          (if 1923 \<le> year cd \<and> year cd \<le> 1977 then
             (case first_rule ''published_1923_to_1977'' rules of
                Some r \<Rightarrow> some_date (year cd + term_years r) 12 31
              | None \<Rightarrow> Inr None)
           else Inr None)
      | None \<Rightarrow> Inr None)"

definition us_corporate_works :: "'a Work_scheme \<Rightarrow> CopyrightRule list \<Rightarrow> error + date option" where
  "us_corporate_works work rules =
     (case authors work of
        [a] \<Rightarrow>
          (if endswith (a_name a) '' Inc.'' then
             (case find (\<lambda>r. rule_type r = ''corporate_works'' \<and> creation_date work \<noteq> None) rules of
                Some r \<Rightarrow>
                  (case creation_date work of
                     Some cd \<Rightarrow> some_date (year cd + term_years r) 12 31
                   | None \<Rightarrow> Inr None)
              | None \<Rightarrow> Inr None)
           else Inr None)
      | _ \<Rightarrow> Inr None)"

definition eu_anonymous_works :: "'a Work_scheme \<Rightarrow> CopyrightRule list \<Rightarrow> error + date option" where
  "eu_anonymous_works work rules =
     (case creation_date work of
        Some cd \<Rightarrow>
          (if authors work = [] then
             (case first_rule ''anonymous_works'' rules of
                Some r \<Rightarrow> some_date (year cd + term_years r) 12 31
              | None \<Rightarrow> Inr None)
           else Inr None)
      | None \<Rightarrow> Inr None)"

fun eu_collaborative_loop :: "Author list \<Rightarrow> CopyrightRule list \<Rightarrow> error + date option" where
  "eu_collaborative_loop as [] = Inr None"
| "eu_collaborative_loop as (r # rs) =
     (if rule_type r = ''collaborative_works'' then
        (case scan_death_dates as (None, True) of
           (Some latest, all_have) \<Rightarrow>
             (if all_have then some_date (year latest + term_years r) 12 31
              else eu_collaborative_loop as rs)
         | (None, all_have) \<Rightarrow> eu_collaborative_loop as rs)
      else eu_collaborative_loop as rs)"

definition eu_collaborative_works :: "'a Work_scheme \<Rightarrow> CopyrightRule list \<Rightarrow> error + date option" where
  "eu_collaborative_works work rules =
     (if length (authors work) > 1 then eu_collaborative_loop (authors work) rules else Inr None)"

definition gb_crown_copyright :: "'a Work_scheme \<Rightarrow> CopyrightRule list \<Rightarrow> error + date option" where
  "gb_crown_copyright work rules =
     (case creation_date work of
        Some cd \<Rightarrow>
          (if authors work \<noteq> [] \<and> list_ex (\<lambda>a. a_name a = ''Crown'') (authors work) then
             (case first_rule ''crown_copyright'' rules of
                Some r \<Rightarrow> some_date (year cd + term_years r) 12 31
              | None \<Rightarrow> Inr None)
           else Inr None)
      | None \<Rightarrow> Inr None)"

definition apply_special_rules :: "database \<Rightarrow> 'a Work_scheme \<Rightarrow> Jurisdiction \<Rightarrow> error + date option" where
  "apply_special_rules db work jurisdiction =
     (case j_id jurisdiction of
        None \<Rightarrow> Inr None
      | Some i \<Rightarrow>
          (if i = 0 then Inr None
           else
             (let rules = get_copyright_rules_for_jurisdiction db i
              in if rules = [] then Inr None
                 else if j_code jurisdiction = Some ''US'' then
                   or_else (us_published_before_1923 work rules)
                     (or_else (us_published_1923_to_1977 work rules)
                        (us_corporate_works work rules))
                 else if j_code jurisdiction = Some ''EU'' then
                   or_else (eu_anonymous_works work rules) (eu_collaborative_works work rules)
                 else if j_code jurisdiction = Some ''GB'' then gb_crown_copyright work rules
                 else Inr None)))"

section \<open>The expiry calculator and the status classifier\<close>

definition resolve_jurisdiction :: "'a Work_scheme \<Rightarrow> Jurisdiction option \<Rightarrow> Jurisdiction option" where
  \<comment> \<open>lines 22-23\<close>
  "resolve_jurisdiction work jurisdiction =
     (case jurisdiction of Some j \<Rightarrow> Some j | None \<Rightarrow> primary_jurisdiction work)"

definition calculate_expiry :: "database \<Rightarrow> 'a Work_scheme \<Rightarrow> Jurisdiction option \<Rightarrow> error + date option" where
  "calculate_expiry db work jurisdiction =
     (let jurisdiction = resolve_jurisdiction work jurisdiction
      in case jurisdiction of
           Some j \<Rightarrow>
             (if has_special_rules j then
                or_else (apply_special_rules db work j) (calculate_standard_expiry work jurisdiction)
              else calculate_standard_expiry work jurisdiction)
         | None \<Rightarrow> calculate_standard_expiry work jurisdiction)"

text \<open>
  \<open>determine_status\<close> has seven return statements; the classifier is modelled with the
  return statement taken beside the status returned.
\<close>

datatype status_branch =
    Cached_Global | Cached_Jurisdiction | Expiry_Reached | Expiry_Pending
  | Cutoff_1875 | Cutoff_US_1927 | Default_Unknown

definition cached_status :: "'a Work_scheme \<Rightarrow> Jurisdiction option \<Rightarrow> status option" where
  \<comment> \<open>line 204: an entry of a dictionary exists only in a non-empty dictionary\<close>
  "cached_status work jurisdiction =
     (case jurisdiction of
        Some j \<Rightarrow> (case j_code j of Some c \<Rightarrow> status_by_jurisdiction work c | None \<Rightarrow> None)
      | None \<Rightarrow> None)"

definition is_US :: "Jurisdiction option \<Rightarrow> bool" where
  "is_US jurisdiction = (case jurisdiction of Some j \<Rightarrow> j_code j = Some ''US'' | None \<Rightarrow> False)"

definition determine_status_branch ::
    "database \<Rightarrow> date_provider \<Rightarrow> 'a Work_scheme \<Rightarrow> Jurisdiction option \<Rightarrow> date option
       \<Rightarrow> error + status_branch \<times> status" where
  "determine_status_branch db clock work jurisdiction current_date =
     (let current_date = (case current_date of None \<Rightarrow> get_current_date clock | Some d \<Rightarrow> d)
      in if jurisdiction = None \<and> status work \<noteq> Unknown then Inr (Cached_Global, status work)
         else
           (case cached_status work jurisdiction of
              Some s \<Rightarrow> Inr (Cached_Jurisdiction, s)
            | None \<Rightarrow>
                (case calculate_expiry db work jurisdiction of
                   Inl e \<Rightarrow> Inl e
                 | Inr (Some expiry_date) \<Rightarrow>
                     (if date_le expiry_date current_date then Inr (Expiry_Reached, Public_Domain)
                      else Inr (Expiry_Pending, Copyrighted))
                 | Inr None \<Rightarrow>
                     (case creation_date work of
                        Some cd \<Rightarrow>
                          (if year cd < 1875 then Inr (Cutoff_1875, Public_Domain)
                           else if is_US jurisdiction \<and> year cd < 1927 then
                             Inr (Cutoff_US_1927, Public_Domain)
                           else Inr (Default_Unknown, Unknown))
                      | None \<Rightarrow> Inr (Default_Unknown, Unknown)))))"

definition determine_status ::
    "database \<Rightarrow> date_provider \<Rightarrow> 'a Work_scheme \<Rightarrow> Jurisdiction option \<Rightarrow> date option
       \<Rightarrow> error + status" where
  "determine_status db clock work jurisdiction current_date =
     (case determine_status_branch db clock work jurisdiction current_date of
        Inl e \<Rightarrow> Inl e
      | Inr (b, s) \<Rightarrow> Inr s)"

section \<open>The multi-jurisdiction aggregator and the query helper\<close>

text \<open>
  The loop of \<open>calculate_multi_jurisdiction_status\<close> threads the status map built so
  far and the store it writes to. An exception ends the call; the rows written before
  it are not part of the error value.
\<close>

fun multi_jurisdiction_loop ::
    "date_provider \<Rightarrow> 'a Work_scheme \<Rightarrow> Jurisdiction list
       \<Rightarrow> (string \<rightharpoonup> status) \<times> database \<Rightarrow> error + (string \<rightharpoonup> status) \<times> database" where
  "multi_jurisdiction_loop clock work [] acc = Inr acc"
| "multi_jurisdiction_loop clock work (j # js) (status_map, db) =
     (case j_code j of
        None \<Rightarrow> multi_jurisdiction_loop clock work js (status_map, db)
      | Some c \<Rightarrow>
          (if c = [] then multi_jurisdiction_loop clock work js (status_map, db)
           else
             (case determine_status db clock work (Some j) None of
                Inl e \<Rightarrow> Inl e
              | Inr st \<Rightarrow>
                  (case (w_id work, j_id j) of
                     (Some wi, Some ji) \<Rightarrow>
                       (if wi \<noteq> 0 \<and> ji \<noteq> 0 then
                          (case calculate_expiry db work (Some j) of
                             Inl e \<Rightarrow> Inl e
                           | Inr expiry_date \<Rightarrow>
                               multi_jurisdiction_loop clock work js
                                 (status_map(c \<mapsto> st),
                                  set_work_copyright_status_by_jurisdiction db wi ji st expiry_date))
                        else multi_jurisdiction_loop clock work js (status_map(c \<mapsto> st), db))
                   | _ \<Rightarrow> multi_jurisdiction_loop clock work js (status_map(c \<mapsto> st), db)))))"

definition calculate_multi_jurisdiction_status ::
    "database \<Rightarrow> date_provider \<Rightarrow> 'a Work_scheme \<Rightarrow> Jurisdiction list option
       \<Rightarrow> error + (string \<rightharpoonup> status) \<times> database" where
  "calculate_multi_jurisdiction_status db clock work jurisdictions =
     (let js = (case jurisdictions of
                  None \<Rightarrow> get_all_jurisdictions db
                | Some l \<Rightarrow> (if l = [] then get_all_jurisdictions db else l))
      in multi_jurisdiction_loop clock work js (Map.empty, db))"

fun match_nationality :: "Author list \<Rightarrow> Jurisdiction list \<Rightarrow> Jurisdiction option" where
  \<comment> \<open>lines 288-296: the first author, in order, whose nationality is a jurisdiction's code\<close>
  "match_nationality [] js = None"
| "match_nationality (a # as) js =
     (if truthy_str (nationality a) then
        (case find (\<lambda>j. j_code j = nationality a) js of
           Some j \<Rightarrow> Some j
         | None \<Rightarrow> match_nationality as js)
      else match_nationality as js)"

definition update_primary_jurisdiction :: "'a Work_scheme \<Rightarrow> Jurisdiction list \<Rightarrow> 'a Work_scheme" where
  "update_primary_jurisdiction work jurisdictions =
     (if primary_jurisdiction work = None \<and> authors work \<noteq> [] then
        work\<lparr>primary_jurisdiction := match_nationality (authors work) jurisdictions\<rparr>
      else work)"

definition set_expiry_if_unset :: "database \<Rightarrow> 'a Work_scheme \<Rightarrow> error + 'a Work_scheme" where
  \<comment> \<open>lines 277-278 and 316-317\<close>
  "set_expiry_if_unset db work =
     (if copyright_expiry_date work = None then
        (case calculate_expiry db work None of
           Inl e \<Rightarrow> Inl e
         | Inr x \<Rightarrow> Inr (work\<lparr>copyright_expiry_date := x\<rparr>))
      else Inr work)"

definition update_work_status ::
    "database \<Rightarrow> date_provider \<Rightarrow> 'a Work_scheme \<Rightarrow> error + 'a Work_scheme \<times> database" where
  "update_work_status db clock work =
     (let jurisdictions = get_all_jurisdictions db
      in case set_expiry_if_unset db work of
           Inl e \<Rightarrow> Inl e
         | Inr work \<Rightarrow>
             (case determine_status db clock work None None of
                Inl e \<Rightarrow> Inl e
              | Inr st \<Rightarrow>
                  (let work = work\<lparr>status := st\<rparr>
                   in case calculate_multi_jurisdiction_status db clock work (Some jurisdictions) of
                        Inl e \<Rightarrow> Inl e
                      | Inr (status_map, db') \<Rightarrow>
                          Inr (update_primary_jurisdiction
                                 (work\<lparr>status_by_jurisdiction := status_map\<rparr>) jurisdictions,
                               db'))))"

definition resolve_expiry ::
    "database \<Rightarrow> 'a Work_scheme \<Rightarrow> Jurisdiction option
       \<Rightarrow> error + date option \<times> 'a Work_scheme" where
  \<comment> \<open>lines 311-318: the expiry date, and the work with the date stored when it was unset\<close>
  "resolve_expiry db work jurisdiction =
     (case jurisdiction of
        Some j \<Rightarrow>
          (case calculate_expiry db work jurisdiction of
             Inl e \<Rightarrow> Inl e
           | Inr x \<Rightarrow> Inr (x, work))
      | None \<Rightarrow>
          (case set_expiry_if_unset db work of
             Inl e \<Rightarrow> Inl e
           | Inr work \<Rightarrow> Inr (copyright_expiry_date work, work)))"

definition get_days_until_expiry ::
    "database \<Rightarrow> date_provider \<Rightarrow> 'a Work_scheme \<Rightarrow> Jurisdiction option \<Rightarrow> date option
       \<Rightarrow> error + int option \<times> 'a Work_scheme" where
  "get_days_until_expiry db clock work jurisdiction current_date =
     (let current_date = (case current_date of None \<Rightarrow> get_current_date clock | Some d \<Rightarrow> d)
      in case resolve_expiry db work jurisdiction of
           Inl e \<Rightarrow> Inl e
         | Inr (None, work) \<Rightarrow> Inr (None, work)
         | Inr (Some expiry_date, work) \<Rightarrow>
             (case determine_status db clock work jurisdiction (Some current_date) of
                Inl e \<Rightarrow> Inl e
              | Inr st \<Rightarrow>
                  (if st = Public_Domain then Inr (None, work)
                   else
                     (let days = days_between expiry_date current_date
                      in Inr (if days \<ge> 0 then Some days else None, work)))))"

section \<open>What the specification calls the latest death year\<close>

definition known_death_dates :: "'a Work_scheme \<Rightarrow> date list" where
  "known_death_dates work = List.map_filter death_date (authors work)"

definition max_death_year :: "'a Work_scheme \<Rightarrow> int" where
  "max_death_year work = Max (set (map year (known_death_dates work)))"

section \<open>Example records (four jurisdictions of \<open>initialize_default_jurisdictions\<close>, with their rules)\<close>

definition us :: Jurisdiction where
  "us = \<lparr>j_name = ''United States'', j_id = Some 1, j_code = Some ''US'',
          term_years_after_death = 70, has_special_rules = True\<rparr>"

definition eu :: Jurisdiction where
  "eu = \<lparr>j_name = ''European Union'', j_id = Some 2, j_code = Some ''EU'',
          term_years_after_death = 70, has_special_rules = True\<rparr>"

definition uk :: Jurisdiction where
  "uk = \<lparr>j_name = ''United Kingdom'', j_id = Some 4, j_code = Some ''GB'',
          term_years_after_death = 70, has_special_rules = True\<rparr>"

definition mx :: Jurisdiction where
  "mx = \<lparr>j_name = ''Mexico'', j_id = Some 6, j_code = Some ''MX'',
          term_years_after_death = 100, has_special_rules = False\<rparr>"

definition default_db :: database where
  "default_db =
     \<lparr>jurisdictions_table = [eu, mx, uk, us],
      copyright_rules_table =
        [\<lparr>row_jurisdiction_id = 1, row_rule_type = ''published_before_1923'', row_term_years = 0,
          row_base_date_type = fixed_year, row_description = []\<rparr>,
         \<lparr>row_jurisdiction_id = 1, row_rule_type = ''corporate_works'', row_term_years = 95,
          row_base_date_type = publication, row_description = []\<rparr>,
         \<lparr>row_jurisdiction_id = 1, row_rule_type = ''published_1923_to_1977'', row_term_years = 95,
          row_base_date_type = publication, row_description = []\<rparr>,
         \<lparr>row_jurisdiction_id = 2, row_rule_type = ''anonymous_works'', row_term_years = 70,
          row_base_date_type = publication, row_description = []\<rparr>,
         \<lparr>row_jurisdiction_id = 2, row_rule_type = ''collaborative_works'', row_term_years = 70,
          row_base_date_type = author_death, row_description = []\<rparr>,
         \<lparr>row_jurisdiction_id = 4, row_rule_type = ''crown_copyright'', row_term_years = 50,
          row_base_date_type = publication, row_description = []\<rparr>],
      work_jurisdiction_status = Map.empty\<rparr>"

definition no_override :: date_provider where
  "no_override = \<lparr>current_date_override = None, env_current_date = None\<rparr>"

definition person :: "string \<Rightarrow> date option \<Rightarrow> string option \<Rightarrow> Author" where
  "person n died nation =
     \<lparr>a_name = n, a_id = None, birth_date = None, death_date = died, nationality = nation,
      bio = None\<rparr>"

definition new_work :: "string \<Rightarrow> Author list \<Rightarrow> date option \<Rightarrow> Work" where
  \<comment> \<open>\<open>Work(title=..., authors=..., creation_date=...)\<close> with the dataclass defaults\<close>
  "new_work t as created =
     \<lparr>title = t, w_id = None, authors = as, creation_date = created, publication_date = None,
      first_publication_date = None, copyright_expiry_date = None, primary_jurisdiction = None,
      status = Unknown, status_by_jurisdiction = Map.empty, is_collaborative = False\<rparr>"

definition dracula :: Work where
  "dracula =
     new_work ''Dracula'' [person ''Bram Stoker'' (Some \<lparr>year = 1912, month = 4, day = 20\<rparr>) None] None"

definition old_work :: Work where
  "old_work =
     new_work ''Old'' [person ''A'' (Some \<lparr>year = 1950, month = 6, day = 1\<rparr>) None]
       (Some \<lparr>year = 1920, month = 1, day = 1\<rparr>)"

definition anonymous_1900 :: Work where
  "anonymous_1900 = new_work ''Early'' [] (Some \<lparr>year = 1900, month = 1, day = 1\<rparr>)"

definition anonymous_1950 :: Work where
  "anonymous_1950 = new_work ''Anonymous'' [] (Some \<lparr>year = 1950, month = 1, day = 1\<rparr>)"

definition joint_work :: Work where
  "joint_work =
     new_work ''Joint''
       [person ''A'' (Some \<lparr>year = 1950, month = 6, day = 1\<rparr>) None, person ''B'' None None] None"

definition blank_work :: Work where
  "blank_work = new_work ''Blank'' [] None"

definition cached_public_domain :: Work where
  "cached_public_domain = blank_work\<lparr>status := Public_Domain\<rparr>"

definition undated_work :: Work where
  "undated_work = new_work ''Undated'' [person ''B'' None (Some ''US'')] None"

definition misclassified_dracula :: Work where
  "misclassified_dracula = dracula\<lparr>status := Copyrighted\<rparr>"

definition today :: date where
  "today = \<lparr>year = 2025, month = 4, day = 30\<rparr>"

definition recent_work :: Work where
  "recent_work = new_work ''Recent'' [person ''A'' (Some \<lparr>year = 1990, month = 6, day = 1\<rparr>) None] None"

definition contested_work :: Work where
  "contested_work =
     new_work ''Contested'' [person ''A'' (Some \<lparr>year = 1990, month = 6, day = 1\<rparr>) (Some ''US'')]
       (Some \<lparr>year = 1920, month = 1, day = 1\<rparr>)"

definition contested_updated :: Work where
  "contested_updated =
     contested_work\<lparr>copyright_expiry_date := Some \<lparr>year = 2060, month = 12, day = 31\<rparr>,
                    status := Copyrighted,
                    status_by_jurisdiction :=
                      [''EU'' \<mapsto> Copyrighted, ''MX'' \<mapsto> Copyrighted, ''GB'' \<mapsto> Copyrighted,
                       ''US'' \<mapsto> Public_Domain],
                    primary_jurisdiction := Some us\<rparr>"

lemmas ex_defs = default_db_def us_def eu_def mx_def uk_def new_work_def person_def

section \<open>Facts about dates\<close>

lemma date_less_year: "date_less a b \<Longrightarrow> year a \<le> year b"
  by (auto simp: date_less_def)

lemma not_date_less_year: "\<not> date_less a b \<Longrightarrow> year b \<le> year a"
  by (auto simp: date_less_def)

lemma some_date_dec31:
  "some_date y 12 31 = (if 1 \<le> y \<and> y \<le> 9999 then Inr (Some \<lparr>year = y, month = 12, day = 31\<rparr>) else Inl ValueError)"
  by (simp add: some_date_def mk_date_def days_in_month_def)

section \<open>The ordinal of a date grows with the date\<close>

text \<open>
  For dates the constructor accepts, the day difference \<open>(a - b).days\<close> is negative
  exactly when \<open>a\<close> lies before \<open>b\<close>.
\<close>

lemma div_step:
  fixes y n :: int
  assumes "0 < n"
  shows "y div n = (y - 1) div n + (if y mod n = 0 then 1 else 0)"
proof (cases "y mod n = 0")
  case True
  have "n * (y div n) + y mod n = y" by (rule mult_div_mod_eq)
  with True have "y - 1 = n * (y div n - 1) + (n - 1)" by (simp add: algebra_simps)
  then have "(y - 1) div n = y div n - 1"
    by (rule int_div_pos_eq) (use assms in simp_all)
  with True show ?thesis by simp
next
  case False
  from assms have "0 \<le> y mod n" "y mod n < n" by simp_all
  with False have b: "0 \<le> y mod n - 1" "y mod n - 1 < n" by simp_all
  have "n * (y div n) + y mod n = y" by (rule mult_div_mod_eq)
  then have "y - 1 = n * (y div n) + (y mod n - 1)" by simp
  then have "(y - 1) div n = y div n"
    by (rule int_div_pos_eq) (use b in simp_all)
  with False show ?thesis by simp
qed

lemma mod_400_100: "(y::int) mod 400 = 0 \<Longrightarrow> y mod 100 = 0"
  by auto

lemma mod_100_4: "(y::int) mod 100 = 0 \<Longrightarrow> y mod 4 = 0"
  by auto

lemma days_before_year_step:
  "days_before_year (y + 1) = days_before_year y + (if is_leap y then 366 else 365)"
proof -
  define a b c where "a = (y - 1) div 4" and "b = (y - 1) div 100" and "c = (y - 1) div 400"
  define l4 l100 l400 where "l4 \<longleftrightarrow> y mod 4 = 0" and "l100 \<longleftrightarrow> y mod 100 = 0"
    and "l400 \<longleftrightarrow> y mod 400 = 0"
  have q: "y div 4 = a + (if l4 then 1 else 0)" "y div 100 = b + (if l100 then 1 else 0)"
    "y div 400 = c + (if l400 then 1 else 0)"
    unfolding a_def b_def c_def l4_def l100_def l400_def by (rule div_step, simp)+
  have i: "l400 \<longrightarrow> l100" "l100 \<longrightarrow> l4"
    unfolding l4_def l100_def l400_def using mod_400_100 [of y] mod_100_4 [of y] by blast+
  have n: "days_before_year (y + 1) = y * 365 + y div 4 - y div 100 + y div 400"
    by (simp add: days_before_year_def)
  have o: "days_before_year y = (y - 1) * 365 + a - b + c"
    by (simp only: days_before_year_def a_def b_def c_def)
  have l: "is_leap y \<longleftrightarrow> l4 \<and> (\<not> l100 \<or> l400)"
    by (simp only: is_leap_def l4_def l100_def l400_def)
  show ?thesis
    unfolding n o l q using i by (cases l4; cases l100; cases l400) simp_all
qed

lemma days_before_year_mono: "y \<le> y' \<Longrightarrow> days_before_year y \<le> days_before_year y'"
proof (induction y' rule: int_ge_induct)
  case base
  show ?case by simp
next
  case (step i)
  then show ?case by (simp add: days_before_year_step)
qed

lemma days_before_month_step:
  assumes "1 \<le> m" "m \<le> 11"
  shows "days_before_month y (m + 1) = days_before_month y m + days_in_month y m"
proof -
  from assms have "m = 1 \<or> m = 2 \<or> m = 3 \<or> m = 4 \<or> m = 5 \<or> m = 6 \<or> m = 7 \<or> m = 8 \<or> m = 9 \<or>
         m = 10 \<or> m = 11" by arith
  then show ?thesis
    by (elim disjE) (simp_all add: days_before_month_def days_in_month_def)
qed

lemma days_before_month_last:
  "days_before_month y 12 + days_in_month y 12 = (if is_leap y then 366 else 365)"
  by (simp add: days_before_month_def days_in_month_def)

lemma days_in_month_pos: "0 < days_in_month y m"
  by (simp add: days_in_month_def)

lemma days_before_month_mono:
  assumes "1 \<le> m" "m \<le> m'" "m' \<le> 12"
  shows "days_before_month y m \<le> days_before_month y m'"
  using assms(2,1,3)
proof (induction m' rule: int_ge_induct)
  case base
  show ?case by simp
next
  case (step i)
  then have "days_before_month y (i + 1) = days_before_month y i + days_in_month y i"
    by (intro days_before_month_step) auto
  with step days_in_month_pos [of y i] show ?case by simp
qed

lemma valid_date_bounds:
  assumes "valid_date d"
  shows "1 \<le> month d" "month d \<le> 12" "1 \<le> day d" "day d \<le> days_in_month (year d) (month d)"
  using assms by (auto simp: valid_date_def mk_date_def split: if_splits)

lemma day_of_year_upper:
  assumes "valid_date d"
  shows "days_before_month (year d) (month d) + day d \<le> (if is_leap (year d) then 366 else 365)"
proof -
  note b = valid_date_bounds [OF assms]
  have "days_before_month (year d) (month d) + days_in_month (year d) (month d) \<le>
          days_before_month (year d) 12 + days_in_month (year d) 12"
  proof (cases "month d = 12")
    case True
    then show ?thesis by simp
  next
    case False
    with b have m: "month d \<le> 11" by simp
    from days_before_month_step [OF b(1) m]
    have "days_before_month (year d) (month d) + days_in_month (year d) (month d) =
            days_before_month (year d) (month d + 1)" by simp
    also have "\<dots> \<le> days_before_month (year d) 12"
      using b m by (intro days_before_month_mono) auto
    finally show ?thesis using days_in_month_pos [of "year d" 12] by simp
  qed
  with b(4) show ?thesis unfolding days_before_month_last by linarith
qed

lemma days_before_month_nonneg: "0 \<le> days_before_month y m"
proof (cases "1 \<le> m \<and> m \<le> 12")
  case True
  then have "days_before_month y 1 \<le> days_before_month y m"
    by (intro days_before_month_mono) auto
  then show ?thesis by (simp add: days_before_month_def)
next
  case False
  then show ?thesis by (auto simp: days_before_month_def)
qed

lemma toordinal_mono:
  assumes "valid_date a" "valid_date b" "date_less a b"
  shows "toordinal a < toordinal b"
proof -
  note va = valid_date_bounds [OF assms(1)] and vb = valid_date_bounds [OF assms(2)]
  from assms(3) consider
      (year) "year a < year b"
    | (month) "year a = year b" "month a < month b"
    | (day) "year a = year b" "month a = month b" "day a < day b"
    by (auto simp: date_less_def)
  then show ?thesis
  proof cases
    case year
    then have "days_before_year (year a + 1) \<le> days_before_year (year b)"
      by (intro days_before_year_mono) simp
    with day_of_year_upper [OF assms(1)] days_before_month_nonneg [of "year b" "month b"] vb(3)
    show ?thesis by (simp add: toordinal_def days_before_year_step split: if_splits)
  next
    case month
    with va have m: "month a \<le> 11" using vb by simp
    from days_before_month_step [OF va(1) m]
    have "days_before_month (year a) (month a) + day a \<le> days_before_month (year a) (month a + 1)"
      using va(4) by simp
    also have "\<dots> \<le> days_before_month (year a) (month b)"
      using va vb month by (intro days_before_month_mono) auto
    finally show ?thesis using month vb(3) by (simp add: toordinal_def)
  next
    case day
    then show ?thesis by (simp add: toordinal_def)
  qed
qed

lemma date_less_total: "date_less a b \<or> a = b \<or> date_less b a"
  by (cases a, cases b) (auto simp: date_less_def)

lemma days_between_negative_iff:
  assumes "valid_date a" "valid_date b"
  shows "days_between a b < 0 \<longleftrightarrow> date_less a b"
proof
  assume "date_less a b"
  from toordinal_mono [OF assms this] show "days_between a b < 0" by (simp add: days_between_def)
next
  assume n: "days_between a b < 0"
  show "date_less a b"
  proof (rule ccontr)
    assume "\<not> date_less a b"
    with date_less_total [of a b] have "a = b \<or> date_less b a" by blast
    then have "toordinal b \<le> toordinal a"
      using toordinal_mono [OF assms(2,1)] by auto
    with n show False by (simp add: days_between_def)
  qed
qed

section \<open>The scan of the authors' death dates\<close>

lemma scan_latest_year:
  "map_option year (fst (scan_death_dates as (latest, b))) =
     (let ys = map year (List.map_filter death_date as) @ (case latest of None \<Rightarrow> [] | Some l \<Rightarrow> [year l])
      in if ys = [] then None else Some (Max (set ys)))"
proof (induction as arbitrary: latest b)
  case Nil
  then show ?case by (cases latest) simp_all
next
  case (Cons a as)
  show ?case
  proof (cases "death_date a")
    case None
    then show ?thesis using Cons.IH [of latest False]
      by simp
  next
    case (Some d)
    note d = Some
    show ?thesis
    proof (cases latest)
      case None
      then show ?thesis using d Cons.IH [of "Some d" b]
        by (simp add: Let_def insert_commute)
    next
      case (Some l)
      show ?thesis
      proof (cases "date_less l d")
        case True
        then have "year l \<le> year d" by (rule date_less_year)
        then have "Max (insert (year d) (insert (year l) S)) = Max (insert (year d) S)" if "finite S" for S
          using that by (cases "S = {}") (simp_all add: max_def)
        then show ?thesis using d Some True Cons.IH [of "Some d" b]
          by (simp add: Let_def)
      next
        case False
        then have "year d \<le> year l" by (rule not_date_less_year)
        then have "Max (insert (year d) (insert (year l) S)) = Max (insert (year l) S)" if "finite S" for S
          using that by (cases "S = {}") (simp_all add: max_def)
        then show ?thesis using d Some False Cons.IH [of "Some l" b]
          by (simp add: Let_def insert_commute)
      qed
    qed
  qed
qed

lemma scan_none_iff:
  "fst (scan_death_dates as (latest, b)) = None \<longleftrightarrow> latest = None \<and> (\<forall>a\<in>set as. death_date a = None)"
proof (induction as arbitrary: latest b)
  case Nil
  then show ?case by simp
next
  case (Cons a as)
  then show ?case by (auto split: option.splits)
qed

lemma scan_all_have:
  "snd (scan_death_dates as (latest, b)) \<longleftrightarrow> b \<and> (\<forall>a\<in>set as. death_date a \<noteq> None)"
proof (induction as arbitrary: latest b)
  case Nil
  then show ?case by simp
next
  case (Cons a as)
  then show ?case by (auto split: option.splits)
qed

section \<open>The standard calculation from the latest known death date\<close>

lemma scan_some_year:
  assumes "\<exists>a\<in>set (authors work). death_date a \<noteq> None"
  shows "\<exists>d b. scan_death_dates (authors work) (None, True) = (Some d, b) \<and>
           year d = max_death_year work"
proof -
  obtain l b where sc: "scan_death_dates (authors work) (None, True) = (l, b)"
    by (cases "scan_death_dates (authors work) (None, True)")
  from assms have "fst (scan_death_dates (authors work) (None, True)) \<noteq> None"
    by (simp add: scan_none_iff)
  with sc obtain d where l: "l = Some d" by (cases l) auto
  from assms obtain a x where "a \<in> set (authors work)" "death_date a = Some x" by auto
  then have "List.map_filter death_date (authors work) \<noteq> []"
    by (auto simp: List.map_filter_def filter_empty_conv)
  with scan_latest_year [of "authors work" None True] sc l
  have "year d = max_death_year work"
    by (simp add: max_death_year_def known_death_dates_def Let_def)
  with sc l show ?thesis by simp
qed

lemma standard_expiry_known_death:
  assumes "\<exists>a\<in>set (authors work). death_date a \<noteq> None"
  shows "calculate_standard_expiry work jurisdiction =
           some_date (max_death_year work +
             (case jurisdiction of Some j \<Rightarrow> term_years_after_death j | None \<Rightarrow> DEFAULT_TERM_YEARS)) 12 31"
proof -
  from assms have ne: "authors work \<noteq> []" by auto
  from scan_some_year [OF assms] obtain d b where
    "scan_death_dates (authors work) (None, True) = (Some d, b)" "year d = max_death_year work"
    by blast
  with ne show ?thesis by (simp add: calculate_standard_expiry_def)
qed

text \<open>
  Claim C1. For a work with at least one author whose death date is known,
  \<open>calculate_standard_expiry\<close> returns \<open>date(max_death_year + term, 12, 31)\<close>, where
  \<open>max_death_year\<close> is the latest year among the known death dates and the term is the
  jurisdiction's \<open>term_years_after_death\<close>, or 70 when no jurisdiction is given. The
  standard calculation never consults the special rules, so no condition on them is
  needed. \<open>some_date y 12 31\<close> is Python's \<open>date(y, 12, 31)\<close>: the date when
  \<open>1 \<le> y \<le> 9999\<close>, and \<open>ValueError\<close> otherwise, on both sides of the equation.
\<close>

theorem calculate_standard_expiry_latest_death:
  assumes "\<exists>a\<in>set (authors work). death_date a \<noteq> None"
  shows "calculate_standard_expiry work None = some_date (max_death_year work + 70) 12 31 \<and>
         (\<forall>j. calculate_standard_expiry work (Some j) =
                some_date (max_death_year work + term_years_after_death j) 12 31)"
  using standard_expiry_known_death [OF assms]
  by (simp add: DEFAULT_TERM_YEARS_def)

theorem calculate_standard_expiry_latest_death_witness:
  "(\<exists>a\<in>set (authors dracula). death_date a \<noteq> None) \<and>
   calculate_standard_expiry dracula (Some uk) = Inr (Some \<lparr>year = 1982, month = 12, day = 31\<rparr>)"
proof -
  have h: "\<exists>a\<in>set (authors dracula). death_date a \<noteq> None"
    by (simp add: dracula_def new_work_def person_def)
  have y: "max_death_year dracula = 1912"
    by (simp add: max_death_year_def known_death_dates_def dracula_def new_work_def person_def)
  show ?thesis
    using h calculate_standard_expiry_latest_death [OF h] y
    by (simp add: uk_def some_date_dec31)
qed

section \<open>Falling through and building dates\<close>

lemma or_else_simps:
  "or_else (Inr None) y = y"
  "or_else (Inr (Some d)) y = Inr (Some d)"
  "or_else (Inl e) y = Inl e"
  by (simp_all add: or_else_def)

lemma or_else_Some:
  "or_else x y = Inr (Some d) \<longleftrightarrow> x = Inr (Some d) \<or> (x = Inr None \<and> y = Inr (Some d))"
  by (auto simp: or_else_def split: sum.splits option.splits)

lemma or_else_None:
  "or_else x y = Inr None \<longleftrightarrow> x = Inr None \<and> y = Inr None"
  by (auto simp: or_else_def split: sum.splits option.splits)

lemma some_date_not_None: "some_date y m d \<noteq> Inr None"
  by (simp add: some_date_def split: sum.splits)

lemma some_date_Some:
  "some_date y m d = Inr (Some x) \<Longrightarrow> year x = y \<and> month x = m \<and> day x = d"
  by (auto simp: some_date_def mk_date_def split: sum.splits if_splits)

lemma some_date_1923: "some_date 1923 1 1 = Inr (Some \<lparr>year = 1923, month = 1, day = 1\<rparr>)"
  by (simp add: some_date_def mk_date_def days_in_month_def)

lemma first_rule_Some:
  "\<exists>r\<in>set rules. rule_type r = t \<Longrightarrow> \<exists>r. first_rule t rules = Some r"
  by (induction rules) (auto simp: first_rule_def)

section \<open>Precedence of the special rules\<close>

text \<open>
  Claim C2. A work created in 1920, in a US jurisdiction (code \<open>US\<close>, special rules
  enabled, a persisted id) whose rules contain a \<open>published_before_1923\<close> rule:
  \<open>calculate_expiry\<close> returns \<open>date(1923, 1, 1)\<close>, whatever the authors' death dates
  would give in the standard calculation.
\<close>

theorem special_rule_precedence:
  assumes cd: "creation_date work = Some cd" "year cd = 1920"
    and us: "j_code j = Some ''US''" "has_special_rules j" "j_id j = Some i" "i \<noteq> 0"
    and rule: "\<exists>r\<in>set (get_copyright_rules_for_jurisdiction db i).
                 rule_type r = ''published_before_1923''"
  shows "calculate_expiry db work (Some j) = Inr (Some \<lparr>year = 1923, month = 1, day = 1\<rparr>)"
proof -
  from rule have ne: "get_copyright_rules_for_jurisdiction db i \<noteq> []" by auto
  from first_rule_Some [OF rule] cd
  have "us_published_before_1923 work (get_copyright_rules_for_jurisdiction db i) =
          Inr (Some \<lparr>year = 1923, month = 1, day = 1\<rparr>)"
    by (auto simp: us_published_before_1923_def some_date_1923)
  with ne us have "apply_special_rules db work j = Inr (Some \<lparr>year = 1923, month = 1, day = 1\<rparr>)"
    by (simp add: apply_special_rules_def or_else_simps)
  with us show ?thesis
    by (simp add: calculate_expiry_def resolve_jurisdiction_def or_else_simps)
qed

theorem special_rule_precedence_witness:
  "creation_date old_work = Some \<lparr>year = 1920, month = 1, day = 1\<rparr> \<and>
   calculate_standard_expiry old_work (Some us) = Inr (Some \<lparr>year = 2020, month = 12, day = 31\<rparr>) \<and>
   calculate_expiry default_db old_work (Some us) = Inr (Some \<lparr>year = 1923, month = 1, day = 1\<rparr>)"
proof -
  have r: "\<exists>r\<in>set (get_copyright_rules_for_jurisdiction default_db 1).
             rule_type r = ''published_before_1923''"
    by (simp add: get_copyright_rules_for_jurisdiction_def ex_defs)
  have c: "creation_date old_work = Some \<lparr>year = 1920, month = 1, day = 1\<rparr>"
    by (simp add: old_work_def new_work_def)
  have s: "calculate_standard_expiry old_work (Some us) = Inr (Some \<lparr>year = 2020, month = 12, day = 31\<rparr>)"
    by (simp add: calculate_standard_expiry_def old_work_def new_work_def person_def us_def some_date_dec31)
  from special_rule_precedence [of old_work _ us 1 default_db, OF c _ _ _ _ _ r]
  have "calculate_expiry default_db old_work (Some us) = Inr (Some \<lparr>year = 1923, month = 1, day = 1\<rparr>)"
    by (simp add: us_def)
  with c s show ?thesis by simp
qed

section \<open>The day of the year an expiry falls on\<close>

lemma creation_fallback_dec31:
  "creation_fallback work j t = Inr (Some d) \<Longrightarrow> month d = 12 \<and> day d = 31"
  by (auto simp: creation_fallback_def split: option.splits dest: some_date_Some)

lemma standard_expiry_dec31:
  "calculate_standard_expiry work j = Inr (Some d) \<Longrightarrow> month d = 12 \<and> day d = 31"
  by (auto simp: calculate_standard_expiry_def Let_def
      split: if_splits prod.splits option.splits
      dest: some_date_Some creation_fallback_dec31)

lemma us_published_before_1923_result:
  "us_published_before_1923 work rules = Inr (Some d) \<Longrightarrow>
     d = \<lparr>year = 1923, month = 1, day = 1\<rparr> \<and> (\<exists>cd. creation_date work = Some cd \<and> year cd < 1923)"
  by (auto simp: us_published_before_1923_def some_date_1923 split: option.splits if_splits)

lemma us_published_1923_to_1977_dec31:
  "us_published_1923_to_1977 work rules = Inr (Some d) \<Longrightarrow> month d = 12 \<and> day d = 31"
  by (auto simp: us_published_1923_to_1977_def split: option.splits if_splits dest: some_date_Some)

lemma us_corporate_works_dec31:
  "us_corporate_works work rules = Inr (Some d) \<Longrightarrow> month d = 12 \<and> day d = 31"
  by (auto simp: us_corporate_works_def split: option.splits if_splits list.splits dest: some_date_Some)

lemma eu_anonymous_works_dec31:
  "eu_anonymous_works work rules = Inr (Some d) \<Longrightarrow> month d = 12 \<and> day d = 31"
  by (auto simp: eu_anonymous_works_def split: option.splits if_splits dest: some_date_Some)

lemma eu_collaborative_loop_dec31:
  "eu_collaborative_loop as rules = Inr (Some d) \<Longrightarrow> month d = 12 \<and> day d = 31"
  by (induction rules) (auto split: option.splits if_splits prod.splits dest: some_date_Some)

lemma eu_collaborative_works_dec31:
  "eu_collaborative_works work rules = Inr (Some d) \<Longrightarrow> month d = 12 \<and> day d = 31"
  by (auto simp: eu_collaborative_works_def split: if_splits dest: eu_collaborative_loop_dec31)

lemma gb_crown_copyright_dec31:
  "gb_crown_copyright work rules = Inr (Some d) \<Longrightarrow> month d = 12 \<and> day d = 31"
  by (auto simp: gb_crown_copyright_def split: option.splits if_splits dest: some_date_Some)

lemma apply_special_rules_result:
  assumes "apply_special_rules db work j = Inr (Some d)"
  shows "(month d = 12 \<and> day d = 31) \<or>
         (d = \<lparr>year = 1923, month = 1, day = 1\<rparr> \<and> j_code j = Some ''US'' \<and>
          (\<exists>cd. creation_date work = Some cd \<and> year cd < 1923))"
proof -
  from assms obtain i where i: "j_id j = Some i" "i \<noteq> 0"
    by (auto simp: apply_special_rules_def split: option.splits if_splits)
  let ?rules = "get_copyright_rules_for_jurisdiction db i"
  consider (US) "j_code j = Some ''US''"
    | (EU) "j_code j \<noteq> Some ''US''" "j_code j = Some ''EU''"
    | (GB) "j_code j \<noteq> Some ''US''" "j_code j \<noteq> Some ''EU''" "j_code j = Some ''GB''"
    | (other) "j_code j \<noteq> Some ''US''" "j_code j \<noteq> Some ''EU''" "j_code j \<noteq> Some ''GB''"
    by blast
  then show ?thesis
  proof cases
    case US
    with assms i have
      "or_else (us_published_before_1923 work ?rules)
         (or_else (us_published_1923_to_1977 work ?rules) (us_corporate_works work ?rules)) =
       Inr (Some d)"
      by (simp add: apply_special_rules_def Let_def split: if_splits)
    then show ?thesis using US
      by (auto simp: or_else_Some dest: us_published_before_1923_result
          us_published_1923_to_1977_dec31 us_corporate_works_dec31)
  next
    case EU
    with assms i have
      "or_else (eu_anonymous_works work ?rules) (eu_collaborative_works work ?rules) = Inr (Some d)"
      by (simp add: apply_special_rules_def Let_def split: if_splits)
    then show ?thesis
      by (auto simp: or_else_Some dest: eu_anonymous_works_dec31 eu_collaborative_works_dec31)
  next
    case GB
    with assms i have "gb_crown_copyright work ?rules = Inr (Some d)"
      by (simp add: apply_special_rules_def Let_def split: if_splits)
    then show ?thesis by (auto dest: gb_crown_copyright_dec31)
  next
    case other
    with assms i show ?thesis
      by (simp add: apply_special_rules_def Let_def split: if_splits)
  qed
qed

text \<open>
  Claim C3 says that \<open>calculate_expiry\<close> returns \<open>None\<close> or a date on December 31.
  The US rule for works created before 1923 returns January 1, 1923 instead: here for a
  work of 1900 with no author, in the default catalog's United States.
\<close>

theorem calculate_expiry_not_dec31_counterexample:
  "calculate_expiry default_db anonymous_1900 (Some us) =
     Inr (Some \<lparr>year = 1923, month = 1, day = 1\<rparr>)"
  by (simp add: calculate_expiry_def resolve_jurisdiction_def apply_special_rules_def
      get_copyright_rules_for_jurisdiction_def us_published_before_1923_def first_rule_def
      or_else_simps some_date_1923 anonymous_1900_def ex_defs)

text \<open>
  Claim C3, amended. Every date \<open>calculate_expiry\<close> returns falls on December 31,
  except January 1, 1923, which it returns only for a work created before 1923 in a
  resolved jurisdiction of code \<open>US\<close> with special rules.
\<close>

theorem calculate_expiry_dec31_or_1923:
  assumes "calculate_expiry db work jurisdiction = Inr (Some d)"
  shows "(month d = 12 \<and> day d = 31) \<or>
         (d = \<lparr>year = 1923, month = 1, day = 1\<rparr> \<and>
          (\<exists>j cd. resolve_jurisdiction work jurisdiction = Some j \<and> j_code j = Some ''US'' \<and>
                   has_special_rules j \<and> creation_date work = Some cd \<and> year cd < 1923))"
proof (cases "resolve_jurisdiction work jurisdiction")
  case None
  with assms show ?thesis
    by (auto simp: calculate_expiry_def dest: standard_expiry_dec31)
next
  case (Some j)
  show ?thesis
  proof (cases "has_special_rules j")
    case False
    with Some assms show ?thesis
      by (auto simp: calculate_expiry_def dest: standard_expiry_dec31)
  next
    case True
    with Some assms have
      "apply_special_rules db work j = Inr (Some d) \<or> calculate_standard_expiry work (Some j) = Inr (Some d)"
      by (auto simp: calculate_expiry_def or_else_Some)
    then show ?thesis
    proof
      assume "apply_special_rules db work j = Inr (Some d)"
      from apply_special_rules_result [OF this] Some True show ?thesis by auto
    next
      assume "calculate_standard_expiry work (Some j) = Inr (Some d)"
      then show ?thesis by (auto dest: standard_expiry_dec31)
    qed
  qed
qed

theorem calculate_expiry_dec31_or_1923_witness:
  "calculate_expiry default_db dracula (Some uk) = Inr (Some \<lparr>year = 1982, month = 12, day = 31\<rparr>) \<and>
   month \<lparr>year = 1982, month = 12, day = 31\<rparr> = 12 \<and> day \<lparr>year = 1982, month = 12, day = 31\<rparr> = 31"
proof -
  have h: "calculate_expiry default_db dracula (Some uk) =
             Inr (Some \<lparr>year = 1982, month = 12, day = 31\<rparr>)"
    by (simp add: calculate_expiry_def resolve_jurisdiction_def apply_special_rules_def
        get_copyright_rules_for_jurisdiction_def gb_crown_copyright_def
        calculate_standard_expiry_def or_else_simps some_date_dec31 dracula_def ex_defs)
  from calculate_expiry_dec31_or_1923 [OF h] h show ?thesis by simp
qed

section \<open>The creation-date path of the standard calculation\<close>

lemma standard_expiry_no_death:
  assumes "\<forall>a\<in>set (authors work). death_date a = None" "creation_date work = Some cd"
  shows "calculate_standard_expiry work jurisdiction =
           some_date (year cd + fallback_term_years jurisdiction
             (case jurisdiction of Some j \<Rightarrow> term_years_after_death j | None \<Rightarrow> DEFAULT_TERM_YEARS)) 12 31"
proof (cases "authors work = []")
  case True
  with assms show ?thesis by (simp add: calculate_standard_expiry_def creation_fallback_def)
next
  case False
  from assms(1) have "fst (scan_death_dates (authors work) (None, True)) = None"
    by (simp add: scan_none_iff)
  then obtain b where "scan_death_dates (authors work) (None, True) = (None, b)"
    by (cases "scan_death_dates (authors work) (None, True)") auto
  with False assms show ?thesis
    by (simp add: calculate_standard_expiry_def creation_fallback_def)
qed

text \<open>
  Claim C4 says that the creation-date path uses 95 years for every jurisdiction other
  than US and EU. The code overrides the term for US and EU only: another jurisdiction
  keeps its own \<open>term_years_after_death\<close>. Mexico (100 years) gives 2050 for a work of
  1950 with no author, where the claim gives 2045.
\<close>

theorem creation_fallback_other_jurisdiction_counterexample:
  "authors anonymous_1950 = [] \<and>
   creation_date anonymous_1950 = Some \<lparr>year = 1950, month = 1, day = 1\<rparr> \<and>
   j_code mx = Some ''MX'' \<and>
   calculate_standard_expiry anonymous_1950 (Some mx) = Inr (Some \<lparr>year = 2050, month = 12, day = 31\<rparr>) \<and>
   some_date (1950 + 95) 12 31 = Inr (Some \<lparr>year = 2045, month = 12, day = 31\<rparr>)"
  by (simp add: calculate_standard_expiry_def creation_fallback_def fallback_term_years_def
      some_date_dec31 anonymous_1950_def ex_defs)

text \<open>
  Claim C4, amended. When no author has a death date and the creation date is present,
  \<open>calculate_standard_expiry\<close> returns December 31 of the creation year plus a term of
  95 years for code \<open>US\<close>, 70 for code \<open>EU\<close>, the jurisdiction's own
  \<open>term_years_after_death\<close> for any other jurisdiction, and 95 when no jurisdiction is
  given.
\<close>

theorem creation_fallback_terms:
  assumes "\<forall>a\<in>set (authors work). death_date a = None" "creation_date work = Some cd"
  shows "calculate_standard_expiry work jurisdiction =
           some_date (year cd +
             (case jurisdiction of
                None \<Rightarrow> 95
              | Some j \<Rightarrow>
                  (if j_code j = Some ''US'' then 95
                   else if j_code j = Some ''EU'' then 70
                   else term_years_after_death j))) 12 31"
  using standard_expiry_no_death [OF assms, of jurisdiction]
  by (simp add: fallback_term_years_def split: option.splits)

theorem creation_fallback_terms_witness:
  "calculate_standard_expiry anonymous_1950 (Some us) = Inr (Some \<lparr>year = 2045, month = 12, day = 31\<rparr>) \<and>
   calculate_standard_expiry anonymous_1950 (Some eu) = Inr (Some \<lparr>year = 2020, month = 12, day = 31\<rparr>) \<and>
   calculate_standard_expiry anonymous_1950 (Some mx) = Inr (Some \<lparr>year = 2050, month = 12, day = 31\<rparr>) \<and>
   calculate_standard_expiry anonymous_1950 None = Inr (Some \<lparr>year = 2045, month = 12, day = 31\<rparr>)"
proof -
  have a: "\<forall>a\<in>set (authors anonymous_1950). death_date a = None"
    by (simp add: anonymous_1950_def new_work_def)
  have c: "creation_date anonymous_1950 = Some \<lparr>year = 1950, month = 1, day = 1\<rparr>"
    by (simp add: anonymous_1950_def new_work_def)
  show ?thesis
    using creation_fallback_terms [OF a c, of "Some us"] creation_fallback_terms [OF a c, of "Some eu"]
      creation_fallback_terms [OF a c, of "Some mx"] creation_fallback_terms [OF a c, of None]
    by (simp add: some_date_dec31 us_def eu_def mx_def)
qed

section \<open>Collaborative works with a missing death date\<close>

lemma eu_collaborative_loop_incomplete:
  "\<not> (fst (scan_death_dates as (None, True)) \<noteq> None \<and> snd (scan_death_dates as (None, True))) \<Longrightarrow>
     eu_collaborative_loop as rules = Inr None"
  by (induction rules) (auto split: prod.splits option.splits)

lemma eu_collaborative_works_missing_death:
  "\<exists>a\<in>set (authors work). death_date a = None \<Longrightarrow> eu_collaborative_works work rules = Inr None"
  by (simp add: eu_collaborative_works_def eu_collaborative_loop_incomplete scan_all_have)

lemma eu_anonymous_works_with_authors:
  "authors work \<noteq> [] \<Longrightarrow> eu_anonymous_works work rules = Inr None"
  by (simp add: eu_anonymous_works_def split: option.splits)

lemma apply_special_rules_eu_missing_death:
  assumes "authors work \<noteq> []" "\<exists>a\<in>set (authors work). death_date a = None"
    "j_code j = Some ''EU''"
  shows "apply_special_rules db work j = Inr None"
  using assms
  by (simp add: apply_special_rules_def Let_def or_else_simps eu_anonymous_works_with_authors
      eu_collaborative_works_missing_death split: option.splits)

text \<open>
  Claim C5. A work with more than one author, one of whom has no death date, in an EU
  jurisdiction: \<open>apply_special_rules\<close> returns \<open>None\<close> (with or without a
  \<open>collaborative_works\<close> rule), so \<open>calculate_expiry\<close> is the standard calculation,
  and that one uses the latest death year among the authors that have a death date.
\<close>

theorem collaborative_missing_death_date:
  assumes "length (authors work) > 1" "\<exists>a\<in>set (authors work). death_date a = None"
    "j_code j = Some ''EU''"
  shows "apply_special_rules db work j = Inr None \<and>
         calculate_expiry db work (Some j) = calculate_standard_expiry work (Some j) \<and>
         ((\<exists>a\<in>set (authors work). death_date a \<noteq> None) \<longrightarrow>
            calculate_standard_expiry work (Some j) =
              some_date (max_death_year work + term_years_after_death j) 12 31)"
proof -
  from assms(1) have ne: "authors work \<noteq> []" by auto
  have sp: "apply_special_rules db work j = Inr None"
    by (rule apply_special_rules_eu_missing_death [OF ne assms(2,3)])
  then have "calculate_expiry db work (Some j) = calculate_standard_expiry work (Some j)"
    by (simp add: calculate_expiry_def resolve_jurisdiction_def or_else_simps Let_def)
  with sp show ?thesis
    by (simp add: standard_expiry_known_death)
qed


theorem collaborative_missing_death_date_witness:
  "length (authors joint_work) = 2 \<and>
   list_ex (\<lambda>r. rule_type r = ''collaborative_works'') (get_copyright_rules_for_jurisdiction default_db 2) \<and>
   apply_special_rules default_db joint_work eu = Inr None \<and>
   calculate_expiry default_db joint_work (Some eu) = Inr (Some \<lparr>year = 2020, month = 12, day = 31\<rparr>)"
proof -
  have l: "length (authors joint_work) > 1" by (simp add: joint_work_def ex_defs)
  have m: "\<exists>a\<in>set (authors joint_work). death_date a = None" by (simp add: joint_work_def ex_defs)
  have k: "\<exists>a\<in>set (authors joint_work). death_date a \<noteq> None" by (simp add: joint_work_def ex_defs)
  have c: "j_code eu = Some ''EU''" by (simp add: eu_def)
  have y: "max_death_year joint_work = 1950"
    by (simp add: max_death_year_def known_death_dates_def joint_work_def ex_defs)
  have r: "list_ex (\<lambda>r. rule_type r = ''collaborative_works'') (get_copyright_rules_for_jurisdiction default_db 2)"
    by (simp add: get_copyright_rules_for_jurisdiction_def ex_defs)
  from collaborative_missing_death_date [OF l m c, of default_db] k y r show ?thesis
    by (simp add: some_date_dec31 eu_def joint_work_def ex_defs)
qed

section \<open>When no expiry can be computed\<close>

lemma creation_fallback_None:
  "creation_fallback work j t = Inr None \<longleftrightarrow> creation_date work = None"
  by (simp add: creation_fallback_def some_date_not_None split: option.splits)

lemma standard_expiry_None_iff:
  "calculate_standard_expiry work j = Inr None \<longleftrightarrow>
     creation_date work = None \<and> (\<forall>a\<in>set (authors work). death_date a = None)"
proof (cases "authors work = []")
  case True
  then show ?thesis by (simp add: calculate_standard_expiry_def creation_fallback_None)
next
  case False
  obtain l b where sc: "scan_death_dates (authors work) (None, True) = (l, b)"
    by (cases "scan_death_dates (authors work) (None, True)")
  from scan_none_iff [of "authors work" None True] sc
  have l: "l = None \<longleftrightarrow> (\<forall>a\<in>set (authors work). death_date a = None)" by simp
  show ?thesis
  proof (cases l)
    case None
    with False sc l show ?thesis
      by (auto simp: calculate_standard_expiry_def creation_fallback_None)
  next
    case (Some d)
    with False sc l show ?thesis
      by (auto simp: calculate_standard_expiry_def some_date_not_None)
  qed
qed

lemma find_never: "find (\<lambda>r. False) rules = None"
  by (induction rules) simp_all

lemma apply_special_rules_no_basis:
  assumes "creation_date work = None" "\<forall>a\<in>set (authors work). death_date a = None"
  shows "apply_special_rules db work j = Inr None"
proof -
  have "eu_collaborative_works work rules = Inr None" for rules
    using assms(2)
    by (simp add: eu_collaborative_works_def eu_collaborative_loop_incomplete scan_none_iff)
  moreover have "us_corporate_works work rules = Inr None" for rules
    using assms(1)
    by (simp add: us_corporate_works_def find_never split: list.splits)
  ultimately show ?thesis using assms(1)
    by (simp add: apply_special_rules_def Let_def or_else_simps us_published_before_1923_def
        us_published_1923_to_1977_def eu_anonymous_works_def gb_crown_copyright_def
        split: option.splits)
qed

lemma calculate_expiry_None_iff:
  "calculate_expiry db work j = Inr None \<longleftrightarrow>
     creation_date work = None \<and> (\<forall>a\<in>set (authors work). death_date a = None)"
  by (auto simp: calculate_expiry_def Let_def or_else_None standard_expiry_None_iff
      apply_special_rules_no_basis split: option.splits)

lemma determine_status_branch_no_expiry:
  assumes "calculate_expiry db work j = Inr None"
  shows "determine_status_branch db clock work j cd =
           Inr (if j = None \<and> status work \<noteq> Unknown then (Cached_Global, status work)
                else (case cached_status work j of
                        Some s \<Rightarrow> (Cached_Jurisdiction, s)
                      | None \<Rightarrow> (Default_Unknown, Unknown)))"
proof -
  from assms have "creation_date work = None" by (simp add: calculate_expiry_None_iff)
  with assms show ?thesis
    by (simp add: determine_status_branch_def Let_def split: option.splits)
qed

text \<open>
  Claim C9 says that a work with no author and no creation date resolves to the status
  \<open>Unknown\<close>. \<open>determine_status\<close> first returns a status the work already carries:
  such a work whose \<open>status\<close> is \<open>Public Domain\<close> keeps it when no jurisdiction is
  given, although no expiry can be computed.
\<close>

theorem no_basis_cached_status_counterexample:
  "authors cached_public_domain = [] \<and> creation_date cached_public_domain = None \<and>
   calculate_expiry default_db cached_public_domain None = Inr None \<and>
   determine_status default_db no_override cached_public_domain None None = Inr Public_Domain"
  by (simp add: determine_status_def determine_status_branch_def calculate_expiry_None_iff
      cached_public_domain_def blank_work_def new_work_def)

text \<open>
  Claim C9, amended. For a work with no author and no creation date, and every
  (possibly absent) jurisdiction, \<open>calculate_expiry\<close> returns \<open>None\<close>, and
  \<open>determine_status\<close> returns the status already recorded where there is one (the
  work's \<open>status\<close> when no jurisdiction is given, which is \<open>Unknown\<close> unless set
  before; the entry of \<open>status_by_jurisdiction\<close> for the jurisdiction's code when a
  jurisdiction is given) and \<open>Unknown\<close> otherwise.
\<close>

theorem no_basis_no_expiry:
  assumes "authors work = []" "creation_date work = None"
  shows "calculate_expiry db work j = Inr None \<and>
         determine_status db clock work j cd =
           Inr (case j of
                  None \<Rightarrow> status work
                | Some jur \<Rightarrow> (case cached_status work j of Some s \<Rightarrow> s | None \<Rightarrow> Unknown))"
proof -
  from assms have e: "calculate_expiry db work j = Inr None"
    by (simp add: calculate_expiry_None_iff)
  have "cached_status work None = None" by (simp add: cached_status_def)
  with e determine_status_branch_no_expiry [OF e, of clock cd] show ?thesis
    by (auto simp: determine_status_def split: option.splits)
qed

theorem no_basis_no_expiry_witness:
  "authors blank_work = [] \<and> creation_date blank_work = None \<and>
   calculate_expiry default_db blank_work (Some us) = Inr None \<and>
   determine_status default_db no_override blank_work (Some us) None = Inr Unknown"
proof -
  have a: "authors blank_work = []" and c: "creation_date blank_work = None"
    by (simp_all add: blank_work_def new_work_def)
  from no_basis_no_expiry [OF a c, of default_db "Some us" no_override None] a c show ?thesis
    by (simp add: cached_status_def blank_work_def new_work_def us_def)
qed

text \<open>
  Claim C10. Whenever \<open>calculate_expiry\<close> returns \<open>None\<close> the work has no creation
  date; so \<open>determine_status\<close> never returns through its two historical cutoffs
  (creation year before 1875, and before 1927 in the US), and when no expiry is
  computable and no recorded status applies it returns \<open>Unknown\<close>.
\<close>

theorem historical_cutoffs_unreachable:
  "(calculate_expiry db work j = Inr None \<longrightarrow> creation_date work = None) \<and>
   (\<forall>b s. determine_status_branch db clock work j cd = Inr (b, s) \<longrightarrow>
            b \<noteq> Cutoff_1875 \<and> b \<noteq> Cutoff_US_1927) \<and>
   (calculate_expiry db work j = Inr None \<and> (j = None \<longrightarrow> status work = Unknown) \<and>
    cached_status work j = None \<longrightarrow>
      determine_status db clock work j cd = Inr Unknown)"
proof (intro conjI allI impI)
  assume "calculate_expiry db work j = Inr None"
  then show "creation_date work = None" by (simp add: calculate_expiry_None_iff)
next
  fix b s
  assume b: "determine_status_branch db clock work j cd = Inr (b, s)"
  show "b \<noteq> Cutoff_1875"
  proof (cases "calculate_expiry db work j = Inr None")
    case True
    from determine_status_branch_no_expiry [OF True, of clock cd] b show ?thesis
      by (auto split: if_splits option.splits)
  next
    case False
    with b show ?thesis
      by (auto simp: determine_status_branch_def Let_def split: if_splits option.splits sum.splits)
  qed
  show "b \<noteq> Cutoff_US_1927"
  proof (cases "calculate_expiry db work j = Inr None")
    case True
    from determine_status_branch_no_expiry [OF True, of clock cd] b show ?thesis
      by (auto split: if_splits option.splits)
  next
    case False
    with b show ?thesis
      by (auto simp: determine_status_branch_def Let_def split: if_splits option.splits sum.splits)
  qed
next
  assume a: "calculate_expiry db work j = Inr None \<and> (j = None \<longrightarrow> status work = Unknown) \<and>
    cached_status work j = None"
  then have e: "calculate_expiry db work j = Inr None" by simp
  from determine_status_branch_no_expiry [OF e, of clock cd] a
  show "determine_status db clock work j cd = Inr Unknown"
    by (auto simp: determine_status_def)
qed

theorem historical_cutoffs_unreachable_witness:
  "calculate_expiry default_db undated_work (Some us) = Inr None \<and>
   creation_date undated_work = None \<and>
   determine_status default_db no_override undated_work (Some us) None = Inr Unknown"
proof -
  have e: "calculate_expiry default_db undated_work (Some us) = Inr None"
    by (simp add: calculate_expiry_None_iff undated_work_def new_work_def person_def)
  have k: "cached_status undated_work (Some us) = None"
    by (simp add: cached_status_def undated_work_def new_work_def us_def)
  from historical_cutoffs_unreachable [of default_db undated_work "Some us" no_override None] e k
  show ?thesis by simp
qed

section \<open>The classifier over time\<close>

lemma date_le_trans: "date_le a b \<Longrightarrow> date_le b c \<Longrightarrow> date_le a c"
  by (auto simp: date_le_def date_less_def)

text \<open>
  Claim C6. \<open>determine_status\<close> is monotone in the current date: a work that is
  \<open>Public Domain\<close> at \<open>d1\<close> is \<open>Public Domain\<close> at every later date \<open>d2\<close>.
\<close>

theorem determine_status_monotone:
  assumes "determine_status db clock work j (Some d1) = Inr Public_Domain" "date_le d1 d2"
  shows "determine_status db clock work j (Some d2) = Inr Public_Domain"
  using assms
  by (auto simp: determine_status_def determine_status_branch_def Let_def
      split: if_splits option.splits sum.splits dest: date_le_trans)

theorem determine_status_monotone_witness:
  "determine_status default_db no_override dracula (Some uk) (Some \<lparr>year = 2000, month = 1, day = 1\<rparr>) =
     Inr Public_Domain \<and>
   date_le \<lparr>year = 2000, month = 1, day = 1\<rparr> \<lparr>year = 2025, month = 4, day = 30\<rparr> \<and>
   determine_status default_db no_override dracula (Some uk) (Some \<lparr>year = 2025, month = 4, day = 30\<rparr>) =
     Inr Public_Domain"
proof -
  have e: "calculate_expiry default_db dracula (Some uk) =
             Inr (Some \<lparr>year = 1982, month = 12, day = 31\<rparr>)"
    by (simp add: calculate_expiry_def resolve_jurisdiction_def apply_special_rules_def
        get_copyright_rules_for_jurisdiction_def gb_crown_copyright_def
        calculate_standard_expiry_def or_else_simps some_date_dec31 dracula_def ex_defs)
  have k: "cached_status dracula (Some uk) = None"
    by (simp add: cached_status_def dracula_def new_work_def uk_def)
  have s: "determine_status default_db no_override dracula (Some uk)
             (Some \<lparr>year = 2000, month = 1, day = 1\<rparr>) = Inr Public_Domain"
    using e k by (simp add: determine_status_def determine_status_branch_def date_le_def date_less_def)
  have l: "date_le \<lparr>year = 2000, month = 1, day = 1\<rparr> \<lparr>year = 2025, month = 4, day = 30\<rparr>"
    by (simp add: date_le_def date_less_def)
  from determine_status_monotone [OF s l] s l show ?thesis by simp
qed

section \<open>Days until expiry\<close>

lemma toordinal_1982: "toordinal \<lparr>year = 1982, month = 12, day = 31\<rparr> = 723910"
  by (simp add: toordinal_def days_before_year_def days_before_month_def is_leap_def)

lemma toordinal_today: "toordinal today = 739371"
  by (simp add: today_def toordinal_def days_before_year_def days_before_month_def is_leap_def)

lemma get_days_until_expiry_result:
  assumes "get_days_until_expiry db clock work j (Some cd) = Inr (r, w')"
  shows "\<exists>e. resolve_expiry db work j = Inr (e, w') \<and>
           (r = None \<longleftrightarrow>
              e = None \<or> determine_status db clock w' j (Some cd) = Inr Public_Domain \<or>
              (\<exists>x. e = Some x \<and> days_between x cd < 0)) \<and>
           (\<forall>n. r = Some n \<longrightarrow> (\<exists>x. e = Some x \<and> n = days_between x cd \<and> 0 \<le> n))"
  using assms
  by (auto simp: get_days_until_expiry_def Let_def
      split: sum.splits option.splits prod.splits if_splits)

text \<open>
  Claim C8 says that \<open>get_days_until_expiry\<close> returns \<open>None\<close> exactly when the
  status is \<open>Public Domain\<close> or the expiry is unknown. It also returns \<open>None\<close> when the
  day difference is negative: a work recorded as \<open>Copyrighted\<close> whose expiry, 1982, is
  known and lies before the current date.
\<close>

theorem stale_status_counterexample:
  "resolve_expiry default_db misclassified_dracula None =
     Inr (Some \<lparr>year = 1982, month = 12, day = 31\<rparr>,
          misclassified_dracula\<lparr>copyright_expiry_date := Some \<lparr>year = 1982, month = 12, day = 31\<rparr>\<rparr>) \<and>
   determine_status default_db no_override
     (misclassified_dracula\<lparr>copyright_expiry_date := Some \<lparr>year = 1982, month = 12, day = 31\<rparr>\<rparr>)
     None (Some today) = Inr Copyrighted \<and>
   get_days_until_expiry default_db no_override misclassified_dracula None (Some today) =
     Inr (None, misclassified_dracula\<lparr>copyright_expiry_date := Some \<lparr>year = 1982, month = 12, day = 31\<rparr>\<rparr>)"
proof -
  have e: "calculate_expiry default_db misclassified_dracula None =
             Inr (Some \<lparr>year = 1982, month = 12, day = 31\<rparr>)"
    by (simp add: calculate_expiry_def resolve_jurisdiction_def calculate_standard_expiry_def
      DEFAULT_TERM_YEARS_def some_date_dec31 misclassified_dracula_def dracula_def ex_defs)
  have r: "resolve_expiry default_db misclassified_dracula None =
     Inr (Some \<lparr>year = 1982, month = 12, day = 31\<rparr>,
          misclassified_dracula\<lparr>copyright_expiry_date := Some \<lparr>year = 1982, month = 12, day = 31\<rparr>\<rparr>)"
    using e by (simp add: resolve_expiry_def set_expiry_if_unset_def)
      (simp add: misclassified_dracula_def dracula_def ex_defs)
  have s: "determine_status default_db no_override
     (misclassified_dracula\<lparr>copyright_expiry_date := Some \<lparr>year = 1982, month = 12, day = 31\<rparr>\<rparr>)
     None (Some today) = Inr Copyrighted"
    by (simp add: determine_status_def determine_status_branch_def misclassified_dracula_def)
  show ?thesis using r s
    by (simp add: get_days_until_expiry_def days_between_def toordinal_1982 toordinal_today)
qed

text \<open>
  Claim C8, amended. Whenever \<open>get_days_until_expiry\<close> returns, it returns \<open>None\<close>
  exactly when the expiry date is unknown, or the classified status is
  \<open>Public Domain\<close>, or the day difference between the expiry date and the current date
  is negative (the expiry date lies before the current date); in every other case it
  returns that day difference, which is not negative. The expiry date is the one
  \<open>resolve_expiry\<close> gives, and the status is classified on the work as
  \<open>resolve_expiry\<close> leaves it.
\<close>

theorem get_days_until_expiry_cases:
  assumes "get_days_until_expiry db clock work j (Some cd) = Inr (r, w')"
  shows "\<exists>e. resolve_expiry db work j = Inr (e, w') \<and>
           (r = None \<longleftrightarrow>
              e = None \<or> determine_status db clock w' j (Some cd) = Inr Public_Domain \<or>
              (\<exists>x. e = Some x \<and> days_between x cd < 0)) \<and>
           (\<forall>n. r = Some n \<longrightarrow> (\<exists>x. e = Some x \<and> n = days_between x cd \<and> 0 \<le> n)) \<and>
           (\<forall>x. e = Some x \<and> valid_date x \<and> valid_date cd \<longrightarrow>
                (days_between x cd < 0 \<longleftrightarrow> date_less x cd))"
proof -
  from get_days_until_expiry_result [OF assms] obtain e where
    e1: "resolve_expiry db work j = Inr (e, w')"
    and e2: "r = None \<longleftrightarrow>
              e = None \<or> determine_status db clock w' j (Some cd) = Inr Public_Domain \<or>
              (\<exists>x. e = Some x \<and> days_between x cd < 0)"
    and e3: "\<forall>n. r = Some n \<longrightarrow> (\<exists>x. e = Some x \<and> n = days_between x cd \<and> 0 \<le> n)"
    by (elim exE conjE)
  have e4: "\<forall>x. e = Some x \<and> valid_date x \<and> valid_date cd \<longrightarrow>
          (days_between x cd < 0 \<longleftrightarrow> date_less x cd)"
    by (simp add: days_between_negative_iff)
  show ?thesis
    by (rule exI [of _ e]) (intro conjI e1 e2 e3 e4)
qed

theorem get_days_until_expiry_cases_witness:
  "get_days_until_expiry default_db no_override recent_work None (Some today) =
     Inr (Some 13029, recent_work\<lparr>copyright_expiry_date := Some \<lparr>year = 2060, month = 12, day = 31\<rparr>\<rparr>) \<and>
   resolve_expiry default_db recent_work None =
     Inr (Some \<lparr>year = 2060, month = 12, day = 31\<rparr>,
          recent_work\<lparr>copyright_expiry_date := Some \<lparr>year = 2060, month = 12, day = 31\<rparr>\<rparr>) \<and>
   days_between \<lparr>year = 2060, month = 12, day = 31\<rparr> today = 13029"
proof -
  let ?w = "recent_work\<lparr>copyright_expiry_date := Some \<lparr>year = 2060, month = 12, day = 31\<rparr>\<rparr>"
  have e: "calculate_expiry default_db recent_work None =
             Inr (Some \<lparr>year = 2060, month = 12, day = 31\<rparr>)"
    by (simp add: calculate_expiry_def resolve_jurisdiction_def calculate_standard_expiry_def
      DEFAULT_TERM_YEARS_def some_date_dec31 recent_work_def ex_defs)
  have e': "calculate_expiry default_db ?w None = Inr (Some \<lparr>year = 2060, month = 12, day = 31\<rparr>)"
    by (simp add: calculate_expiry_def resolve_jurisdiction_def calculate_standard_expiry_def
      DEFAULT_TERM_YEARS_def some_date_dec31 recent_work_def ex_defs)
  have r: "resolve_expiry default_db recent_work None = Inr (Some \<lparr>year = 2060, month = 12, day = 31\<rparr>, ?w)"
    using e by (simp add: resolve_expiry_def set_expiry_if_unset_def)
      (simp add: recent_work_def ex_defs)
  have s: "determine_status default_db no_override ?w None (Some today) = Inr Copyrighted"
    using e' by (simp add: determine_status_def determine_status_branch_def cached_status_def
        date_le_def date_less_def today_def)
      (simp add: recent_work_def ex_defs)
  have d: "days_between \<lparr>year = 2060, month = 12, day = 31\<rparr> today = 13029"
    by (simp add: days_between_def toordinal_today)
      (simp add: toordinal_def days_before_year_def days_before_month_def is_leap_def)
  have g: "get_days_until_expiry default_db no_override recent_work None (Some today) = Inr (Some 13029, ?w)"
    using r s d by (simp add: get_days_until_expiry_def)
  from get_days_until_expiry_cases [OF g] g r d show ?thesis by simp
qed

section \<open>Running the orchestration twice\<close>

text \<open>
  The scheduler reads two tables of the store, the jurisdictions and their rules, and
  writes a third: what it computes does not depend on what it wrote.
\<close>

lemma rules_same_tables:
  assumes "jurisdictions_table db' = jurisdictions_table db"
    "copyright_rules_table db' = copyright_rules_table db"
  shows "get_copyright_rules_for_jurisdiction db' = get_copyright_rules_for_jurisdiction db"
  unfolding get_copyright_rules_for_jurisdiction_def assms ..

lemma calculate_expiry_same_tables:
  assumes "jurisdictions_table db' = jurisdictions_table db"
    "copyright_rules_table db' = copyright_rules_table db"
  shows "calculate_expiry db' = calculate_expiry db"
  unfolding calculate_expiry_def apply_special_rules_def rules_same_tables [OF assms] ..

lemma determine_status_same_tables:
  assumes "jurisdictions_table db' = jurisdictions_table db"
    "copyright_rules_table db' = copyright_rules_table db"
  shows "determine_status db' = determine_status db"
  unfolding determine_status_def determine_status_branch_def calculate_expiry_same_tables [OF assms] ..

lemma set_status_tables:
  "jurisdictions_table (set_work_copyright_status_by_jurisdiction db wi ji st e) = jurisdictions_table db"
  "copyright_rules_table (set_work_copyright_status_by_jurisdiction db wi ji st e) = copyright_rules_table db"
  by (simp_all add: set_work_copyright_status_by_jurisdiction_def)

lemma apply_special_rules_same_basis:
  assumes "authors w' = authors w" "creation_date w' = creation_date w"
  shows "apply_special_rules db w' j = apply_special_rules db w j"
  unfolding apply_special_rules_def us_published_before_1923_def
      us_published_1923_to_1977_def us_corporate_works_def eu_anonymous_works_def
      eu_collaborative_works_def gb_crown_copyright_def assms ..

lemma standard_expiry_same_basis:
  assumes "authors w' = authors w" "creation_date w' = creation_date w"
  shows "calculate_standard_expiry w' j = calculate_standard_expiry w j"
  unfolding calculate_standard_expiry_def creation_fallback_def assms ..

lemma calculate_expiry_same_basis:
  assumes "authors w' = authors w" "creation_date w' = creation_date w"
  shows "calculate_expiry db w' (Some j) = calculate_expiry db w (Some j)"
  by (simp add: calculate_expiry_def resolve_jurisdiction_def Let_def
      apply_special_rules_same_basis [OF assms] standard_expiry_same_basis [OF assms])

lemma codes_Cons:
  "{c. c \<noteq> [] \<and> (\<exists>j\<in>set (j # js). j_code j = Some c)} =
     (case j_code j of None \<Rightarrow> {} | Some c \<Rightarrow> (if c = [] then {} else {c})) \<union>
     {c. c \<noteq> [] \<and> (\<exists>j\<in>set js. j_code j = Some c)}"
  by (auto split: option.splits if_splits)

lemma multi_loop_first:
  assumes "multi_jurisdiction_loop clock w js (m0, db0) = Inr (m, db1)"
  shows "jurisdictions_table db1 = jurisdictions_table db0 \<and>
         copyright_rules_table db1 = copyright_rules_table db0 \<and>
         dom m = dom m0 \<union> {c. c \<noteq> [] \<and> (\<exists>j\<in>set js. j_code j = Some c)} \<and>
         (\<forall>j\<in>set js. \<forall>c wi ji. j_code j = Some c \<and> c \<noteq> [] \<and> w_id w = Some wi \<and> wi \<noteq> 0 \<and>
             j_id j = Some ji \<and> ji \<noteq> 0 \<longrightarrow> (\<exists>x. calculate_expiry db0 w (Some j) = Inr x))"
  using assms
proof (induction js arbitrary: m0 db0)
  case Nil
  then show ?case by simp
next
  case (Cons j js)
  let ?S = "{c. c \<noteq> [] \<and> (\<exists>j\<in>set js. j_code j = Some c)}"
  let ?T = "{c. c \<noteq> [] \<and> (\<exists>j\<in>set (j # js). j_code j = Some c)}"
  show ?case
  proof (cases "\<exists>c. j_code j = Some c \<and> c \<noteq> []")
    case False
    with Cons.prems have l: "multi_jurisdiction_loop clock w js (m0, db0) = Inr (m, db1)"
      by (auto split: option.splits if_splits)
    from False have "?T = ?S"
      unfolding codes_Cons by (auto split: option.splits)
    with Cons.IH [OF l] False show ?thesis by auto
  next
    case True
    then obtain c where c: "j_code j = Some c" "c \<noteq> []" by blast
    then have S: "?T = insert c ?S"
      unfolding codes_Cons by simp
    from Cons.prems c obtain st where st: "determine_status db0 clock w (Some j) None = Inr st"
      by (auto split: sum.splits)
    have up: "dom (m0(c \<mapsto> st)) \<union> ?S = dom m0 \<union> insert c ?S" by simp
    show ?thesis
    proof (cases "\<exists>wi ji. w_id w = Some wi \<and> wi \<noteq> 0 \<and> j_id j = Some ji \<and> ji \<noteq> 0")
      case False
      with Cons.prems c st have l: "multi_jurisdiction_loop clock w js (m0(c \<mapsto> st), db0) = Inr (m, db1)"
        by (auto split: option.splits if_splits)
      note ih = Cons.IH [OF l]
      from ih [THEN conjunct2, THEN conjunct2, THEN conjunct1] up
      have "dom m = dom m0 \<union> ?T" unfolding S by (rule trans)
      with ih [THEN conjunct1] ih [THEN conjunct2, THEN conjunct1]
        ih [THEN conjunct2, THEN conjunct2, THEN conjunct2] False
      show ?thesis by auto
    next
      case True
      then obtain wi ji where ids: "w_id w = Some wi" "wi \<noteq> 0" "j_id j = Some ji" "ji \<noteq> 0"
        by blast
      from Cons.prems c st ids obtain x where x: "calculate_expiry db0 w (Some j) = Inr x"
        by (auto split: sum.splits)
      let ?db = "set_work_copyright_status_by_jurisdiction db0 wi ji st x"
      have same: "calculate_expiry ?db = calculate_expiry db0"
        by (rule calculate_expiry_same_tables) (simp_all add: set_status_tables)
      from Cons.prems c st ids x
      have l: "multi_jurisdiction_loop clock w js (m0(c \<mapsto> st), ?db) = Inr (m, db1)"
        by simp
      note ih = Cons.IH [OF l, unfolded same set_status_tables]
      from ih [THEN conjunct2, THEN conjunct2, THEN conjunct1] up
      have "dom m = dom m0 \<union> ?T" unfolding S by (rule trans)
      with ih [THEN conjunct1] ih [THEN conjunct2, THEN conjunct1]
        ih [THEN conjunct2, THEN conjunct2, THEN conjunct2] x
      show ?thesis by auto
    qed
  qed
qed


lemma multi_loop_cached:
  assumes "jurisdictions_table db0 = jurisdictions_table dbr"
    "copyright_rules_table db0 = copyright_rules_table dbr"
    and "\<forall>j\<in>set js. \<forall>c. j_code j = Some c \<and> c \<noteq> [] \<longrightarrow> status_by_jurisdiction w c \<noteq> None"
    and "\<forall>j\<in>set js. \<forall>c wi ji. j_code j = Some c \<and> c \<noteq> [] \<and> w_id w = Some wi \<and> wi \<noteq> 0 \<and>
             j_id j = Some ji \<and> ji \<noteq> 0 \<longrightarrow> (\<exists>x. calculate_expiry dbr w (Some j) = Inr x)"
  shows "\<exists>db1. multi_jurisdiction_loop clock w js (m0, db0) =
           Inr (\<lambda>c. if c \<in> {c. c \<noteq> [] \<and> (\<exists>j\<in>set js. j_code j = Some c)}
                     then status_by_jurisdiction w c else m0 c, db1)"
  using assms
proof (induction js arbitrary: m0 db0)
  case Nil
  then show ?case by simp
next
  case (Cons j js)
  let ?S = "{c. c \<noteq> [] \<and> (\<exists>j\<in>set js. j_code j = Some c)}"
  let ?T = "{c. c \<noteq> [] \<and> (\<exists>j\<in>set (j # js). j_code j = Some c)}"
  from Cons.prems(3) have cached: "\<forall>j\<in>set js. \<forall>c. j_code j = Some c \<and> c \<noteq> [] \<longrightarrow> status_by_jurisdiction w c \<noteq> None"
    by simp
  from Cons.prems(4) have ok: "\<forall>j\<in>set js. \<forall>c wi ji. j_code j = Some c \<and> c \<noteq> [] \<and> w_id w = Some wi \<and> wi \<noteq> 0 \<and>
             j_id j = Some ji \<and> ji \<noteq> 0 \<longrightarrow> (\<exists>x. calculate_expiry dbr w (Some j) = Inr x)"
    by simp
  show ?case
  proof (cases "\<exists>c. j_code j = Some c \<and> c \<noteq> []")
    case False
    then have T: "?T = ?S" unfolding codes_Cons by (auto split: option.splits)
    from False have "multi_jurisdiction_loop clock w (j # js) (m0, db0) =
        multi_jurisdiction_loop clock w js (m0, db0)"
      by (auto split: option.splits)
    with Cons.IH [OF Cons.prems(1,2) cached ok, of m0] show ?thesis by (simp only: T)
  next
    case True
    then obtain c where c: "j_code j = Some c" "c \<noteq> []" by blast
    then have T: "?T = insert c ?S" unfolding codes_Cons by simp
    from Cons.prems(3) c obtain s where s: "status_by_jurisdiction w c = Some s" by auto
    with c have st: "determine_status db0 clock w (Some j) None = Inr s"
      by (simp add: determine_status_def determine_status_branch_def cached_status_def)
    have m: "(\<lambda>c'. if c' \<in> ?S then status_by_jurisdiction w c' else (m0(c \<mapsto> s)) c') =
             (\<lambda>c'. if c' \<in> ?T then status_by_jurisdiction w c' else m0 c')"
      unfolding T using s by (auto simp: fun_eq_iff)
    show ?thesis
    proof (cases "\<exists>wi ji. w_id w = Some wi \<and> wi \<noteq> 0 \<and> j_id j = Some ji \<and> ji \<noteq> 0")
      case False
      with c st have step: "multi_jurisdiction_loop clock w (j # js) (m0, db0) =
          multi_jurisdiction_loop clock w js (m0(c \<mapsto> s), db0)"
        by (auto split: option.splits)
      from Cons.IH [OF Cons.prems(1,2) cached ok, of "m0(c \<mapsto> s)"] obtain db1 where
        "multi_jurisdiction_loop clock w js (m0(c \<mapsto> s), db0) =
           Inr (\<lambda>c'. if c' \<in> ?S then status_by_jurisdiction w c' else (m0(c \<mapsto> s)) c', db1)"
        by blast
      then have "multi_jurisdiction_loop clock w (j # js) (m0, db0) =
           Inr (\<lambda>c'. if c' \<in> ?T then status_by_jurisdiction w c' else m0 c', db1)"
        by (simp only: step m)
      then show ?thesis by blast
    next
      case True
      then obtain wi ji where ids: "w_id w = Some wi" "wi \<noteq> 0" "j_id j = Some ji" "ji \<noteq> 0"
        by blast
      have eq: "calculate_expiry db0 = calculate_expiry dbr"
        by (rule calculate_expiry_same_tables [OF Cons.prems(1,2)])
      from Cons.prems(4) c ids have "\<exists>x. calculate_expiry dbr w (Some j) = Inr x"
        by simp
      then obtain x where x: "calculate_expiry db0 w (Some j) = Inr x"
        unfolding eq by blast
      let ?db = "set_work_copyright_status_by_jurisdiction db0 wi ji s x"
      have t: "jurisdictions_table ?db = jurisdictions_table dbr"
        "copyright_rules_table ?db = copyright_rules_table dbr"
        using Cons.prems(1,2) by (simp_all add: set_status_tables)
      from c st ids x have step: "multi_jurisdiction_loop clock w (j # js) (m0, db0) =
          multi_jurisdiction_loop clock w js (m0(c \<mapsto> s), ?db)"
        by simp
      from Cons.IH [OF t cached ok, of "m0(c \<mapsto> s)"] obtain db1 where
        "multi_jurisdiction_loop clock w js (m0(c \<mapsto> s), ?db) =
           Inr (\<lambda>c'. if c' \<in> ?S then status_by_jurisdiction w c' else (m0(c \<mapsto> s)) c', db1)"
        by blast
      then have "multi_jurisdiction_loop clock w (j # js) (m0, db0) =
           Inr (\<lambda>c'. if c' \<in> ?T then status_by_jurisdiction w c' else m0 c', db1)"
        by (simp only: step m)
      then show ?thesis by blast
    qed
  qed
qed

lemma set_expiry_if_unset_fields:
  assumes "set_expiry_if_unset db w = Inr wa"
  shows "authors wa = authors w" "creation_date wa = creation_date w" "status wa = status w"
    "w_id wa = w_id w" "primary_jurisdiction wa = primary_jurisdiction w"
    "status_by_jurisdiction wa = status_by_jurisdiction w"
  using assms by (auto simp: set_expiry_if_unset_def split: if_splits sum.splits)

lemma set_expiry_if_unset_None:
  assumes "set_expiry_if_unset db w = Inr wa" "copyright_expiry_date wa = None"
  shows "calculate_expiry db w None = Inr None"
  using assms by (auto simp: set_expiry_if_unset_def split: if_splits sum.splits)

lemma update_primary_jurisdiction_fields:
  "authors (update_primary_jurisdiction w js) = authors w"
  "creation_date (update_primary_jurisdiction w js) = creation_date w"
  "status (update_primary_jurisdiction w js) = status w"
  "w_id (update_primary_jurisdiction w js) = w_id w"
  "status_by_jurisdiction (update_primary_jurisdiction w js) = status_by_jurisdiction w"
  "copyright_expiry_date (update_primary_jurisdiction w js) = copyright_expiry_date w"
  by (simp_all add: update_primary_jurisdiction_def)

lemma determine_status_Unknown:
  assumes "determine_status db clock w None cd = Inr Unknown"
  shows "calculate_expiry db w None = Inr None"
  using assms
  by (auto simp: determine_status_def determine_status_branch_def Let_def cached_status_def
      split: if_splits option.splits sum.splits)


lemma multi_status_catalog:
  "calculate_multi_jurisdiction_status db clock w (Some (get_all_jurisdictions db)) =
     multi_jurisdiction_loop clock w (jurisdictions_table db) (Map.empty, db)"
  by (simp add: calculate_multi_jurisdiction_status_def get_all_jurisdictions_def)

lemma update_work_status_steps:
  assumes "update_work_status db clock work = Inr (w1, db1)"
  obtains wa st m where
    "set_expiry_if_unset db work = Inr wa"
    "determine_status db clock wa None None = Inr st"
    "multi_jurisdiction_loop clock (wa\<lparr>status := st\<rparr>) (jurisdictions_table db) (Map.empty, db) =
       Inr (m, db1)"
    "w1 = update_primary_jurisdiction (wa\<lparr>status := st, status_by_jurisdiction := m\<rparr>)
            (jurisdictions_table db)"
  using assms
  by (auto simp: update_work_status_def multi_status_catalog Let_def get_all_jurisdictions_def [symmetric]
      split: sum.splits prod.splits if_splits)

text \<open>
  Claim C7. \<open>update_work_status\<close> is idempotent: a second call on the work the first
  call returned, with the store as the first call left it (the same catalog) and the
  same current date, returns, and leaves \<open>status\<close>, \<open>status_by_jurisdiction\<close> and
  \<open>copyright_expiry_date\<close> as the first call set them. An expiry date the first call
  set is kept by the guard of step 1; where the first call found none, the second finds
  none either, even though the first call may have set the primary jurisdiction.
\<close>

theorem update_work_status_idempotent:
  assumes "update_work_status db clock work = Inr (w1, db1)"
  shows "\<exists>w2 db2. update_work_status db1 clock w1 = Inr (w2, db2) \<and>
           status w2 = status w1 \<and>
           status_by_jurisdiction w2 = status_by_jurisdiction w1 \<and>
           copyright_expiry_date w2 = copyright_expiry_date w1"
proof -
  let ?js = "jurisdictions_table db"
  let ?S = "{c. c \<noteq> [] \<and> (\<exists>j\<in>set ?js. j_code j = Some c)}"
  from assms obtain wa st m where
    a: "set_expiry_if_unset db work = Inr wa"
    and s: "determine_status db clock wa None None = Inr st"
    and l: "multi_jurisdiction_loop clock (wa\<lparr>status := st\<rparr>) ?js (Map.empty, db) = Inr (m, db1)"
    and w1: "w1 = update_primary_jurisdiction (wa\<lparr>status := st, status_by_jurisdiction := m\<rparr>) ?js"
    by (rule update_work_status_steps)
  note first = multi_loop_first [OF l]
  from first have t: "jurisdictions_table db1 = ?js" "copyright_rules_table db1 = copyright_rules_table db"
    by simp_all
  from first have d: "dom m = ?S" by simp
  have f: "authors w1 = authors wa" "creation_date w1 = creation_date wa" "status w1 = st"
    "w_id w1 = w_id wa" "status_by_jurisdiction w1 = m"
    "copyright_expiry_date w1 = copyright_expiry_date wa"
    by (simp_all add: w1 update_primary_jurisdiction_fields)
  have same: "calculate_expiry db1 = calculate_expiry db" "determine_status db1 = determine_status db"
    by (rule calculate_expiry_same_tables [OF t], rule determine_status_same_tables [OF t])
  \<comment> \<open>an expiry that could not be computed the first time cannot be computed the second time\<close>
  have none: "calculate_expiry db w1 None = Inr None" if "calculate_expiry db wa None = Inr None"
    using that by (simp add: calculate_expiry_None_iff f)
  have e2: "set_expiry_if_unset db1 w1 = Inr w1"
  proof (cases "copyright_expiry_date w1")
    case None
    with f have "copyright_expiry_date wa = None" by simp
    from set_expiry_if_unset_None [OF a this] have "calculate_expiry db wa None = Inr None"
      by (simp add: calculate_expiry_None_iff set_expiry_if_unset_fields [OF a])
    from none [OF this] have "set_expiry_if_unset db1 w1 = Inr (w1\<lparr>copyright_expiry_date := copyright_expiry_date w1\<rparr>)"
      using None by (simp add: set_expiry_if_unset_def same)
    then show ?thesis by simp
  next
    case (Some x)
    then show ?thesis by (simp add: set_expiry_if_unset_def)
  qed
  have s2: "determine_status db1 clock w1 None None = Inr st"
  proof (cases "st = Unknown")
    case False
    with f show ?thesis by (simp add: determine_status_def determine_status_branch_def)
  next
    case True
    with s have "calculate_expiry db wa None = Inr None" by (simp add: determine_status_Unknown)
    from none [OF this] have e: "calculate_expiry db w1 None = Inr None" .
    from determine_status_branch_no_expiry [OF e, of clock None] True f show ?thesis
      by (simp add: determine_status_def same cached_status_def)
  qed
  have st_same: "w1\<lparr>status := st\<rparr> = w1" using f(3) by (metis Work.surjective Work.update_convs(9))
  have cached: "\<forall>j\<in>set ?js. \<forall>c. j_code j = Some c \<and> c \<noteq> [] \<longrightarrow> status_by_jurisdiction w1 c \<noteq> None"
    using d f(5) by (auto simp: dom_def set_eq_iff)
  have ok: "\<forall>j\<in>set ?js. \<forall>c wi ji. j_code j = Some c \<and> c \<noteq> [] \<and> w_id w1 = Some wi \<and> wi \<noteq> 0 \<and>
             j_id j = Some ji \<and> ji \<noteq> 0 \<longrightarrow> (\<exists>x. calculate_expiry db w1 (Some j) = Inr x)"
  proof -
    have "calculate_expiry db w1 (Some j) = calculate_expiry db (wa\<lparr>status := st\<rparr>) (Some j)" for j
      by (rule calculate_expiry_same_basis) (simp_all add: f)
    with first f(4) show ?thesis by simp
  qed
  from multi_loop_cached [OF t cached ok, of clock Map.empty] obtain db2 where
    "multi_jurisdiction_loop clock w1 ?js (Map.empty, db1) =
       Inr (\<lambda>c. if c \<in> ?S then status_by_jurisdiction w1 c else None, db2)"
    by blast
  moreover have "(\<lambda>c. if c \<in> ?S then status_by_jurisdiction w1 c else None) = m"
    using d f(5) by (auto simp: fun_eq_iff dom_def set_eq_iff)
  ultimately have l2: "multi_jurisdiction_loop clock w1 ?js (Map.empty, db1) = Inr (m, db2)"
    by simp
  have "update_work_status db1 clock w1 =
          Inr (update_primary_jurisdiction (w1\<lparr>status_by_jurisdiction := m\<rparr>) ?js, db2)"
    using e2 s2 l2 [folded t(1)] st_same
    by (simp add: update_work_status_def multi_status_catalog Let_def)
      (simp add: get_all_jurisdictions_def t)
  then show ?thesis by (simp add: update_primary_jurisdiction_fields f)
qed

text \<open>
  The example: a work of 1920 whose author died in 1990 and has nationality \<open>US\<close>.
  The first call stores the expiry 2060 and the status \<open>Copyrighted\<close>, and sets the
  primary jurisdiction to the United States. Computed afresh on the returned work, the
  expiry would be January 1, 1923 and the status \<open>Public Domain\<close>; the second call
  keeps what the first call stored.
\<close>

lemmas calc_defs = calculate_expiry_def resolve_jurisdiction_def apply_special_rules_def
  get_copyright_rules_for_jurisdiction_def us_published_before_1923_def
  us_published_1923_to_1977_def us_corporate_works_def eu_anonymous_works_def
  eu_collaborative_works_def gb_crown_copyright_def first_rule_def endswith_def
  calculate_standard_expiry_def creation_fallback_def fallback_term_years_def
  DEFAULT_TERM_YEARS_def or_else_simps some_date_dec31 some_date_1923

lemma contested_expiries:
  "calculate_expiry default_db contested_work None = Inr (Some \<lparr>year = 2060, month = 12, day = 31\<rparr>)"
  "calculate_expiry default_db contested_work (Some eu) = Inr (Some \<lparr>year = 2060, month = 12, day = 31\<rparr>)"
  "calculate_expiry default_db contested_work (Some mx) = Inr (Some \<lparr>year = 2090, month = 12, day = 31\<rparr>)"
  "calculate_expiry default_db contested_work (Some uk) = Inr (Some \<lparr>year = 2060, month = 12, day = 31\<rparr>)"
  "calculate_expiry default_db contested_work (Some us) = Inr (Some \<lparr>year = 1923, month = 1, day = 1\<rparr>)"
  by (simp_all add: calc_defs contested_work_def ex_defs)


lemma contested_first:
  "update_work_status default_db no_override contested_work = Inr (contested_updated, default_db)"
proof -
  let ?d = "Some \<lparr>year = 2060, month = 12, day = 31\<rparr>"
  let ?e = "Inr ?d :: error + date option"
  let ?w1 = "contested_work\<lparr>copyright_expiry_date := ?d\<rparr>"
  let ?w2 = "?w1\<lparr>status := Copyrighted\<rparr>"
  let ?m = "[''EU'' \<mapsto> Copyrighted, ''MX'' \<mapsto> Copyrighted, ''GB'' \<mapsto> Copyrighted,
             ''US'' \<mapsto> Public_Domain]"
  have a: "set_expiry_if_unset default_db contested_work = Inr ?w1"
    using contested_expiries(1)
    by (simp add: set_expiry_if_unset_def) (simp add: contested_work_def new_work_def)
  have same: "calculate_expiry default_db w j = calculate_expiry default_db contested_work j"
    if "authors w = authors contested_work" "creation_date w = creation_date contested_work"
      "primary_jurisdiction w = primary_jurisdiction contested_work" for w :: Work and j
    unfolding calculate_expiry_def resolve_jurisdiction_def that(3)
      apply_special_rules_same_basis [OF that(1,2)] standard_expiry_same_basis [OF that(1,2)] ..
  have now: "get_current_date no_override = today"
    by (simp add: get_current_date_def no_override_def DEFAULT_DATE_def today_def)
  have e1: "calculate_expiry default_db ?w1 None = ?e"
    unfolding contested_expiries(1) [symmetric] by (rule same) simp_all
  have k1: "status ?w1 = Unknown"
    by (simp add: contested_work_def new_work_def)
  have s0: "determine_status default_db no_override ?w1 None None = Inr Copyrighted"
    by (simp add: determine_status_def determine_status_branch_def cached_status_def
        e1 k1 now date_le_def date_less_def today_def)
  have c: "cached_status ?w2 j = None" for j
    by (simp add: cached_status_def contested_work_def new_work_def split: option.splits)
  have e2: "calculate_expiry default_db ?w2 j = calculate_expiry default_db contested_work j" for j
    by (rule same) simp_all
  have st: "determine_status default_db no_override ?w2 (Some eu) None = Inr Copyrighted"
    "determine_status default_db no_override ?w2 (Some mx) None = Inr Copyrighted"
    "determine_status default_db no_override ?w2 (Some uk) None = Inr Copyrighted"
    "determine_status default_db no_override ?w2 (Some us) None = Inr Public_Domain"
    by (simp_all add: determine_status_def determine_status_branch_def c e2 contested_expiries(2-5)
        now date_le_def date_less_def today_def)
  have l: "multi_jurisdiction_loop no_override ?w2 [eu, mx, uk, us] (Map.empty, default_db) =
      Inr (?m, default_db)"
  proof -
    have "w_id ?w2 = None" by (simp add: contested_work_def new_work_def)
    with st show ?thesis by (simp add: eu_def mx_def uk_def us_def)
  qed
  have js: "jurisdictions_table default_db = [eu, mx, uk, us]" by (simp add: default_db_def)
  have ms: "calculate_multi_jurisdiction_status default_db no_override ?w2 (Some [eu, mx, uk, us]) =
      Inr (?m, default_db)"
    using multi_status_catalog [of default_db no_override ?w2] l
    by (simp add: get_all_jurisdictions_def js)
  have p: "update_primary_jurisdiction (?w2\<lparr>status_by_jurisdiction := ?m\<rparr>) [eu, mx, uk, us] =
      contested_updated"
    by (simp add: update_primary_jurisdiction_def contested_updated_def contested_work_def
        new_work_def person_def truthy_str_def eu_def mx_def uk_def us_def)
  show ?thesis
    by (simp only: update_work_status_def Let_def get_all_jurisdictions_def
        a s0 js ms p sum.case prod.case)
qed

lemma contested_recomputed:
  "calculate_expiry default_db contested_updated None =
     Inr (Some \<lparr>year = 1923, month = 1, day = 1\<rparr>)"
  by (simp add: calc_defs contested_updated_def contested_work_def ex_defs)

lemma contested_reclassified:
  "determine_status default_db no_override (contested_updated\<lparr>status := Unknown\<rparr>) None None =
     Inr Public_Domain"
proof -
  have "calculate_expiry default_db (contested_updated\<lparr>status := Unknown\<rparr>) None =
          Inr (Some \<lparr>year = 1923, month = 1, day = 1\<rparr>)"
    by (simp add: calc_defs contested_updated_def contested_work_def ex_defs)
  then show ?thesis
    by (simp add: determine_status_def determine_status_branch_def cached_status_def
        get_current_date_def no_override_def DEFAULT_DATE_def date_le_def date_less_def)
qed

theorem update_work_status_idempotent_witness:
  "update_work_status default_db no_override contested_work = Inr (contested_updated, default_db) \<and>
   calculate_expiry default_db contested_updated None =
     Inr (Some \<lparr>year = 1923, month = 1, day = 1\<rparr>) \<and>
   determine_status default_db no_override (contested_updated\<lparr>status := Unknown\<rparr>) None None =
     Inr Public_Domain \<and>
   (\<exists>w2 db2. update_work_status default_db no_override contested_updated = Inr (w2, db2) \<and>
      status w2 = Copyrighted \<and>
      status_by_jurisdiction w2 =
        [''EU'' \<mapsto> Copyrighted, ''MX'' \<mapsto> Copyrighted, ''GB'' \<mapsto> Copyrighted,
         ''US'' \<mapsto> Public_Domain] \<and>
      copyright_expiry_date w2 = Some \<lparr>year = 2060, month = 12, day = 31\<rparr>)"
proof -
  from update_work_status_idempotent [OF contested_first] obtain w2 db2 where
    "update_work_status default_db no_override contested_updated = Inr (w2, db2)"
    "status w2 = status contested_updated"
    "status_by_jurisdiction w2 = status_by_jurisdiction contested_updated"
    "copyright_expiry_date w2 = copyright_expiry_date contested_updated"
    by blast
  then have "\<exists>w2 db2. update_work_status default_db no_override contested_updated = Inr (w2, db2) \<and>
      status w2 = Copyrighted \<and>
      status_by_jurisdiction w2 =
        [''EU'' \<mapsto> Copyrighted, ''MX'' \<mapsto> Copyrighted, ''GB'' \<mapsto> Copyrighted,
         ''US'' \<mapsto> Public_Domain] \<and>
      copyright_expiry_date w2 = Some \<lparr>year = 2060, month = 12, day = 31\<rparr>"
    by (simp add: contested_updated_def)
  with contested_first contested_recomputed contested_reclassified show ?thesis by blast
qed

end
